theory Spec2Isabelle
  imports Complex_Main "HOL-Library.AList"
begin

section \<open>DocGen (docgen.js): strings\<close>

text \<open>
  A JavaScript string is modelled by the bytes of its UTF-8 encoding, a \<^typ>\<open>string\<close>:
  for a file, the bytes that \<open>fs.readFile(path, 'utf8')\<close> decodes. Well-formed UTF-8 is
  self-synchronising: the encoding of a character occurs in a text only where that
  character stands, so a search for a character is a search for its bytes.
\<close>

definition BOM :: string where
  "BOM = [CHR 0xEF, CHR 0xBB, CHR 0xBF]"

text \<open>In \<open>readFile\<close>, the replacement of a leading U+FEFF by the empty string: the byte-order-mark is the bytes EF BB BF.\<close>

definition stripBOM :: "string \<Rightarrow> string" where
  "stripBOM data = (if take 3 data = BOM then drop 3 data else data)"

text \<open>
  The characters that the whitespace class of a regular expression and \<open>trim\<close> match
  (WhiteSpace and LineTerminator of ECMAScript), by their encodings: U+0009 to U+000D,
  U+0020, U+00A0, U+1680, U+2000 to U+200A, U+2028, U+2029, U+202F, U+205F, U+3000 and
  U+FEFF.
\<close>

definition spaceChars :: "string list" where
  "spaceChars =
     [[CHR 0x09], [CHR 0x0A], [CHR 0x0B], [CHR 0x0C], [CHR 0x0D], [CHR 0x20],
      [CHR 0xC2, CHR 0xA0],
      [CHR 0xE1, CHR 0x9A, CHR 0x80],
      [CHR 0xE2, CHR 0x80, CHR 0x80], [CHR 0xE2, CHR 0x80, CHR 0x81],
      [CHR 0xE2, CHR 0x80, CHR 0x82], [CHR 0xE2, CHR 0x80, CHR 0x83],
      [CHR 0xE2, CHR 0x80, CHR 0x84], [CHR 0xE2, CHR 0x80, CHR 0x85],
      [CHR 0xE2, CHR 0x80, CHR 0x86], [CHR 0xE2, CHR 0x80, CHR 0x87],
      [CHR 0xE2, CHR 0x80, CHR 0x88], [CHR 0xE2, CHR 0x80, CHR 0x89],
      [CHR 0xE2, CHR 0x80, CHR 0x8A],
      [CHR 0xE2, CHR 0x80, CHR 0xA8], [CHR 0xE2, CHR 0x80, CHR 0xA9],
      [CHR 0xE2, CHR 0x80, CHR 0xAF],
      [CHR 0xE2, CHR 0x81, CHR 0x9F],
      [CHR 0xE3, CHR 0x80, CHR 0x80],
      [CHR 0xEF, CHR 0xBB, CHR 0xBF]]"

text \<open>
  The number of bytes of the encoding, among \<open>encs\<close>, that the text begins with, and 0
  when it begins with none (no encoding of \<open>spaceChars\<close> begins or ends another).
\<close>

definition matchLen :: "string list \<Rightarrow> string \<Rightarrow> nat" where
  "matchLen encs s =
     (case filter (\<lambda>e. take (length e) s = e) encs of [] \<Rightarrow> 0 | e # _ \<Rightarrow> length e)"

definition spaceLen :: "string \<Rightarrow> nat" where
  "spaceLen s = matchLen spaceChars s"

text \<open>The text without the encodings of \<open>encs\<close> that it begins with.\<close>

fun skipMatches :: "string list \<Rightarrow> string \<Rightarrow> string" where
  "skipMatches encs [] = []"
| "skipMatches encs (c # cs) =
     (if matchLen encs (c # cs) = 0 then c # cs
      else skipMatches encs (drop (matchLen encs (c # cs) - 1) cs))"

text \<open>
  The global replacement of whitespace runs by a hyphen: every maximal run of whitespace
  characters becomes one hyphen. \<open>inRun\<close> says that the character before was whitespace,
  for which the hyphen is already there.
\<close>

fun replaceRuns :: "bool \<Rightarrow> string \<Rightarrow> string" where
  "replaceRuns inRun [] = []"
| "replaceRuns inRun (c # cs) =
     (if spaceLen (c # cs) = 0 then c # replaceRuns False cs
      else (if inRun then [] else [CHR ''-''])
           @ replaceRuns True (drop (spaceLen (c # cs) - 1) cs))"

definition replaceSpaceRuns :: "string \<Rightarrow> string" where
  "replaceSpaceRuns s = replaceRuns False s"

text \<open>\<open>s.lastIndexOf('.')\<close>: the index of the last occurrence, or \<open>-1\<close> when there is none.\<close>

definition lastIndexOf :: "string \<Rightarrow> char \<Rightarrow> int" where
  "lastIndexOf s c =
     (if c \<in> set s then int (length s) - 1 - int (length (takeWhile (\<lambda>x. x \<noteq> c) (rev s)))
      else - 1)"

text \<open>\<open>s.substr(0, n)\<close>: a length that is negative or zero gives the empty string.\<close>

definition substr0 :: "string \<Rightarrow> int \<Rightarrow> string" where
  "substr0 s n = (if n \<le> 0 then [] else take (nat n) s)"

text \<open>\<open>s.trim()\<close>: the text without the whitespace at its start and at its end.\<close>

definition trim :: "string \<Rightarrow> string" where
  "trim s = rev (skipMatches (map rev spaceChars) (rev (skipMatches spaceChars s)))"

section \<open>JSON values and the schema validator\<close>

text \<open>
  The value \<open>JSON.parse\<close> returns. A number is the rational its literal denotes; an object
  is the list of its own properties (distinct keys, in order).
\<close>

datatype json =
    JNull
  | JBool bool
  | JNum rat
  | JStr string
  | JArr "json list"
  | JObj "(string \<times> json) list"

text \<open>
  The schema keywords that \<open>schemas\<close> uses, with the meaning the validator (z-schema, JSON
  Schema draft 4) gives them: a keyword constrains only the instances of the kind it
  speaks about, \<open>oneOf\<close> asks for exactly one matching alternative, the bounds are
  inclusive, and an integer is a number without fractional part.
\<close>

datatype jstype = TObject | TArray | TString | TInteger | TBoolean

datatype keyword =
    Title string
  | Type jstype
  | Required "string list"
  | Properties "(string \<times> keyword list) list"
  | Items "keyword list"
  | OneOf "keyword list list"
  | Minimum rat
  | Maximum rat

type_synonym schema = "keyword list"

definition hasType :: "jstype \<Rightarrow> json \<Rightarrow> bool" where
  "hasType t j =
     (case (t, j) of
        (TObject, JObj _) \<Rightarrow> True
      | (TArray, JArr _) \<Rightarrow> True
      | (TString, JStr _) \<Rightarrow> True
      | (TInteger, JNum r) \<Rightarrow> r = of_int \<lfloor>r\<rfloor>
      | (TBoolean, JBool _) \<Rightarrow> True
      | _ \<Rightarrow> False)"

fun check :: "keyword \<Rightarrow> json \<Rightarrow> bool" where
  "check (Title t) j = True"
| "check (Type t) j = hasType t j"
| "check (Required ks) j =
     (case j of JObj fs \<Rightarrow> list_all (\<lambda>k. map_of fs k \<noteq> None) ks | _ \<Rightarrow> True)"
| "check (Properties ps) j =
     (case j of
        JObj fs \<Rightarrow>
          list_all (\<lambda>(k, s). case map_of fs k of
                                None \<Rightarrow> True
                              | Some v \<Rightarrow> list_all (\<lambda>kw. check kw v) s) ps
      | _ \<Rightarrow> True)"
| "check (Items s) j =
     (case j of JArr vs \<Rightarrow> list_all (\<lambda>v. list_all (\<lambda>kw. check kw v) s) vs | _ \<Rightarrow> True)"
| "check (OneOf ss) j = (length (filter (\<lambda>s. list_all (\<lambda>kw. check kw j) s) ss) = 1)"
| "check (Minimum m) j = (case j of JNum r \<Rightarrow> m \<le> r | _ \<Rightarrow> True)"
| "check (Maximum m) j = (case j of JNum r \<Rightarrow> r \<le> m | _ \<Rightarrow> True)"

definition validate :: "schema \<Rightarrow> json \<Rightarrow> bool" where
  "validate s j = list_all (\<lambda>kw. check kw j) s"

text \<open>The name-and-url object that \<open>schemas.parameters\<close> repeats for every link.\<close>

definition linkSchema :: schema where
  "linkSchema =
     [Type TObject, Required [''name'', ''url''],
      Properties [(''name'', [Type TString]), (''url'', [Type TString])]]"

definition schemas_parameters :: schema where
  "schemas_parameters =
     [Title ''DocGen Parameters Schema'',
      Type TObject,
      Required [''title'', ''name'', ''version'', ''date'', ''organization'', ''author'',
                ''owner'', ''contributors'', ''website'', ''module'', ''id'', ''summary'',
                ''marking'', ''legalese''],
      Properties
        [(''title'', [Type TString]),
         (''name'', [Type TString]),
         (''version'', [Type TString]),
         (''date'', [Type TString]),
         (''organization'', linkSchema),
         (''author'', linkSchema),
         (''owner'', linkSchema),
         (''contributors'', [Type TArray, Items [OneOf [linkSchema]]]),
         (''website'', linkSchema),
         (''backlink'', linkSchema),
         (''module'', [Type TString]),
         (''id'', [Type TString]),
         (''summary'', [Type TString]),
         (''marking'', [Type TString]),
         (''legalese'', [Type TString])]]"

definition pageSchema :: schema where
  "pageSchema =
     [Type TObject, Required [''title'', ''source''],
      Properties [(''title'', [Type TString]), (''source'', [Type TString]),
                  (''html'', [Type TBoolean])]]"

definition sectionSchema :: schema where
  "sectionSchema =
     [Type TObject, Required [''heading'', ''column'', ''pages''],
      Properties
        [(''name'', [Type TString]),
         (''column'', [Type TInteger, Minimum 1, Maximum 4]),
         (''pages'', [Type TArray, Items [OneOf [pageSchema]]])]]"

definition schemas_contents :: schema where
  "schemas_contents =
     [Title ''DocGen Table of Contents Schema'',
      Type TArray,
      Items [OneOf [sectionSchema]]]"

section \<open>The validated metadata\<close>

text \<open>
  The pipeline reads the metadata only after validation, so the fields it reads have the
  types the schemas fix. The records below are that reading of a JSON value: a string
  field is its string, \<open>html\<close> is whether the field is the boolean \<open>true\<close> (the code tests
  \<open>html === true\<close>), \<open>column\<close> is the integer, \<open>heading\<close> stays a JSON value (the schema
  requires it and fixes no type), and \<open>backlink\<close>, which the schema does not require, is
  optional.
\<close>

record link =
  name :: string
  url :: string

record parameters =
  p_title :: string
  p_name :: string
  p_version :: string
  p_date :: string
  organization :: link
  author :: link
  owner :: link
  contributors :: "link list"
  website :: link
  backlink :: "link option"
  p_module :: string
  p_id :: string
  summary :: string
  marking :: string
  legalese :: string

record page =
  title :: string
  source :: string
  html :: bool

record section_rec =
  heading :: json
  column :: int
  pages :: "page list"

definition field :: "json \<Rightarrow> string \<Rightarrow> json option" where
  "field j k = (case j of JObj fs \<Rightarrow> map_of fs k | _ \<Rightarrow> None)"

definition stringOf :: "json option \<Rightarrow> string" where
  "stringOf v = (case v of Some (JStr s) \<Rightarrow> s | _ \<Rightarrow> [])"

definition elements :: "json option \<Rightarrow> json list" where
  "elements v = (case v of Some (JArr vs) \<Rightarrow> vs | _ \<Rightarrow> [])"

definition valueOf :: "json option \<Rightarrow> json" where
  "valueOf v = (case v of Some x \<Rightarrow> x | None \<Rightarrow> JNull)"

definition linkOf :: "json \<Rightarrow> link" where
  "linkOf j = \<lparr>name = stringOf (field j ''name''), url = stringOf (field j ''url'')\<rparr>"

definition parametersOf :: "json \<Rightarrow> parameters" where
  "parametersOf j =
     \<lparr>p_title = stringOf (field j ''title''),
      p_name = stringOf (field j ''name''),
      p_version = stringOf (field j ''version''),
      p_date = stringOf (field j ''date''),
      organization = linkOf (valueOf (field j ''organization'')),
      author = linkOf (valueOf (field j ''author'')),
      owner = linkOf (valueOf (field j ''owner'')),
      contributors = map linkOf (elements (field j ''contributors'')),
      website = linkOf (valueOf (field j ''website'')),
      backlink = map_option linkOf (field j ''backlink''),
      p_module = stringOf (field j ''module''),
      p_id = stringOf (field j ''id''),
      summary = stringOf (field j ''summary''),
      marking = stringOf (field j ''marking''),
      legalese = stringOf (field j ''legalese'')\<rparr>"

definition pageOf :: "json \<Rightarrow> page" where
  "pageOf j =
     \<lparr>title = stringOf (field j ''title''),
      source = stringOf (field j ''source''),
      html = (field j ''html'' = Some (JBool True))\<rparr>"

definition sectionOf :: "json \<Rightarrow> section_rec" where
  "sectionOf j =
     \<lparr>heading = valueOf (field j ''heading''),
      column = (case field j ''column'' of Some (JNum r) \<Rightarrow> \<lfloor>r\<rfloor> | _ \<Rightarrow> 0),
      pages = map pageOf (elements (field j ''pages''))\<rparr>"

definition contentsOf :: "json \<Rightarrow> section_rec list" where
  "contentsOf j = map sectionOf (elements (Some j))"

text \<open>
  The section that \<open>loadMeta\<close> appends to \<open>meta.contents\<close>:
  \<open>{heading: 'Extra', column: 5, pages: [{title: 'Release notes', source: 'release-notes.txt'}]}\<close>.
\<close>

definition extra :: section_rec where
  "extra =
     \<lparr>heading = JStr ''Extra'', column = 5,
      pages = [\<lparr>title = ''Release notes'', source = ''release-notes.txt'', html = False\<rparr>]\<rparr>"

section \<open>Options and the world outside the program\<close>

text \<open>
  \<open>options\<close> as \<open>setOptions\<close> leaves them (\<open>inputDir\<close> and \<open>outputDir\<close> are
  \<open>options.input\<close> and \<open>options.output\<close>); a version or release-date override that is
  \<open>false\<close> in the code is \<open>None\<close>.
\<close>

record options =
  inputDir :: string
  outputDir :: string
  wkhtmltopdfPath :: string
  pdf :: bool
  pdfDelay :: string
  verbose :: bool
  redirect :: bool
  pageToc :: bool
  mathKatex :: bool
  mathMathjax :: bool
  setVersion :: "string option"
  setReleaseDate :: "string option"

text \<open>
  What the libraries and the operating system answer: the bytes of a file (\<open>None\<close> when
  the read fails), the result of \<open>JSON.parse\<close> and of \<open>markdown.render\<close> (\<open>None\<close> when they
  throw), whether a write, a copy or a directory operation succeeds, the size of the logo,
  the clock, JavaScript's conversion of a value to a string and its \<open>toLowerCase\<close> (the
  lowercase conversion of Unicode, whose tables are the engine's), and what the renderer does:
  the standard output of its version command (\<open>None\<close> when it cannot be executed),
  whether spawning it raises the \<open>error\<close> event, and the code of its \<open>close\<close> event
  (\<open>None\<close> when the event never comes).
\<close>

record world =
  dirname :: string
  readResult :: "string \<Rightarrow> string option"
  parseJSON :: "string \<Rightarrow> json option"
  render :: "string \<Rightarrow> string option"
  writeOk :: "string \<Rightarrow> bool"
  copyOk :: "string \<Rightarrow> string \<Rightarrow> bool"
  remakeOk :: "string \<Rightarrow> bool"
  removeOk :: "string \<Rightarrow> bool"
  mkdirsOk :: "string \<Rightarrow> bool"
  outputFileOk :: "string \<Rightarrow> bool"
  logo :: "(nat \<times> nat) option"
  nowDate :: string
  nowTime :: string
  nowYear :: string
  toStr :: "json \<Rightarrow> string"
  toLowerCase :: "string \<Rightarrow> string"
  execVersion :: "string option"
  spawnError :: bool
  closeCode :: "int option"

definition version :: string where
  "version = ''2.1.3''"

definition wkhtmltopdfVersion :: string where
  "wkhtmltopdfVersion = ''wkhtmltopdf 0.12.2.1 (with patched qt)''"

section \<open>Page paths and navigation\<close>

text \<open>\<open>page.source.substr(0, page.source.lastIndexOf('.'))\<close>\<close>

definition pageName :: "page \<Rightarrow> string" where
  "pageName p = substr0 (source p) (lastIndexOf (source p) CHR ''.'')"

text \<open>The link target of a page in \<open>webToc\<close>, \<open>name + '.html'\<close>.\<close>

definition pagePath :: "page \<Rightarrow> string" where
  "pagePath p = pageName p @ ''.html''"

text \<open>The file of a page in \<open>writePages\<close> and \<open>getPdfArguments\<close>, \<open>options.output + name + '.html'\<close>.\<close>

definition outputPath :: "options \<Rightarrow> page \<Rightarrow> string" where
  "outputPath opts p = outputDir opts @ pageName p @ ''.html''"

text \<open>
  The anchor of a heading in \<open>processContent\<close>: the text of the heading in lowercase,
  with every whitespace run replaced by a hyphen.
\<close>

definition anchor :: "world \<Rightarrow> string \<Rightarrow> string" where
  "anchor w label = replaceSpaceRuns (toLowerCase w label)"

text \<open>
  \<open>sortPages\<close>: \<open>headings\<close> is the object \<open>{1: [], 2: [], 3: [], 4: [], 5: []}\<close>, an
  association list in the order in which \<open>for ... in\<close> enumerates its keys. A section is
  pushed on the list of its column when the object has that key.
\<close>

type_synonym headings = "(int \<times> section_rec list) list"

definition emptyHeadings :: headings where
  "emptyHeadings = [(1, []), (2, []), (3, []), (4, []), (5, [])]"

definition pushSection :: "headings \<Rightarrow> section_rec \<Rightarrow> headings" where
  "pushSection h sec =
     (case map_of h (column sec) of
        None \<Rightarrow> h
      | Some secs \<Rightarrow> AList.update (column sec) (secs @ [sec]) h)"

definition sortPages :: "section_rec list \<Rightarrow> headings" where
  "sortPages contents = foldl pushSection emptyHeadings contents"

text \<open>\<open>webToc\<close>: the grid of the columns other than 5, then the fixed column.\<close>

definition tocPage :: "page \<Rightarrow> string" where
  \<open>tocPage p = ''<li><a href="'' @ pagePath p @ ''">'' @ title p @ ''</a></li>''\<close>

definition tocSection :: "world \<Rightarrow> section_rec \<Rightarrow> string" where
  \<open>tocSection w sec =
     ''<ul><li class="dg-tocHeading">'' @ toStr w (heading sec) @ ''</li>''
     @ concat (map tocPage (pages sec)) @ ''</li></ul>''\<close>

definition tocColumn :: "world \<Rightarrow> int \<times> section_rec list \<Rightarrow> string" where
  \<open>tocColumn w col =
     (case col of (key, secs) \<Rightarrow>
        if key \<noteq> 5
        then ''<td class="dg-tocGroup">'' @ concat (map (tocSection w) secs) @ ''</td>''
        else [])\<close>

definition tocGrid :: "world \<Rightarrow> headings \<Rightarrow> string" where
  "tocGrid w sortedPages = concat (map (tocColumn w) sortedPages)"

definition pdfName :: "world \<Rightarrow> parameters \<Rightarrow> string" where
  "pdfName w params = toLowerCase w (p_name params) @ ''.pdf''"

definition tocFixedColumn :: "world \<Rightarrow> options \<Rightarrow> parameters \<Rightarrow> string" where
  \<open>tocFixedColumn w opts params =
     ''<td class="dg-tocGroup" id="dg-tocFixedColumn"><ul>''
     @ ''<li><span class="w-icon dg-tocIcon" data-name="person_group" title="archive"></span><a href="ownership.html">Ownership</a></li>''
     @ ''<li><span class="w-icon dg-tocIcon" data-name="refresh" title="archive"></span><a href="release-notes.html">Release Notes</a></li>''
     @ ''</ul><div>''
     @ (if pdf opts
        then ''<button class="w-icon-button" onclick="window.location='' @ [CHR 0x27]
             @ pdfName w params @ [CHR 0x27] @ '';">''
             @ ''<span class="w-icon" data-name="document"></span>''
             @ ''<span>PDF copy</span>''
             @ ''</button>''
        else [])
     @ ''</div></td>''\<close>

definition webToc :: "world \<Rightarrow> options \<Rightarrow> parameters \<Rightarrow> headings \<Rightarrow> string" where
  \<open>webToc w opts params sortedPages =
     ''<div><table class="unstyled"><tr>''
     @ tocGrid w sortedPages
     @ tocFixedColumn w opts params
     @ ''</tr></table></div>''\<close>


text \<open>\<open>getPdfArguments\<close>: the options, the pages of every column, the destination.\<close>

definition pdfOptions :: "string list" where
  "pdfOptions =
     ['' --zoom 1.0'', '' --image-quality 100'', '' --print-media-type'',
      '' --orientation portrait'', '' --page-size A4'', '' --margin-top 25'',
      '' --margin-right 15'', '' --margin-bottom 16'', '' --margin-left 15'',
      '' --header-spacing 5'', '' --footer-spacing 5'', '' --no-stop-slow-scripts'']"

definition pdfPagePaths :: "options \<Rightarrow> headings \<Rightarrow> string list" where
  "pdfPagePaths opts sortedPages =
     concat (map (\<lambda>col. case col of (key, secs) \<Rightarrow>
                    concat (map (\<lambda>sec. map (outputPath opts) (pages sec)) secs))
                 sortedPages)"

definition allPages :: "options \<Rightarrow> headings \<Rightarrow> string" where
  "allPages opts sortedPages = concat (map (\<lambda>path. '' '' @ path) (pdfPagePaths opts sortedPages))"

text \<open>The argument string of \<open>getPdfArguments\<close>, before \<open>spawnArgs\<close> splits it into words.\<close>

definition getPdfArguments :: "world \<Rightarrow> options \<Rightarrow> parameters \<Rightarrow> headings \<Rightarrow> string" where
  "getPdfArguments w opts params sortedPages =
     concat (pdfOptions @
       ['' --javascript-delay '' @ pdfDelay opts,
        '' --user-style-sheet '' @ dirname w @ ''/pdf-stylesheet.css'',
        '' --header-html '' @ outputDir opts @ ''temp/pdfHeader.html'',
        '' --footer-html '' @ outputDir opts @ ''temp/pdfFooter.html'',
        '' cover '' @ outputDir opts @ ''temp/pdfCover.html'',
        '' toc --xsl-style-sheet '' @ dirname w @ ''/pdf-contents.xsl''])
     @ allPages opts sortedPages
     @ '' '' @ outputDir opts @ pdfName w params"

section \<open>Parameter injection\<close>

datatype error = TypeError

text \<open>The values that \<open>insertParameters\<close> computes and sets in every template.\<close>

record injected =
  i_logo :: "(nat \<times> nat) option"
  i_homelink :: string
  i_attribution :: string
  i_releaseVersion :: string
  i_releaseDate :: string
  i_author :: string
  i_owner :: string
  i_organization :: string
  i_website :: string
  i_backlink :: string
  i_contributors :: string
  i_copyright :: string
  i_webTitle :: string
  i_webFooter :: string

text \<open>A link when the url is not empty, the name otherwise.\<close>

definition linkHtml :: "link \<Rightarrow> string" where
  \<open>linkHtml l =
     (if url l \<noteq> [] then ''<a href="'' @ url l @ ''">'' @ name l @ ''</a>'' else name l)\<close>

text \<open>The replacement that removes a comma standing before trailing whitespace.\<close>

definition stripTrailingComma :: "string \<Rightarrow> string" where
  "stripTrailingComma s =
     (case skipMatches (map rev spaceChars) (rev s) of
        [] \<Rightarrow> s
      | c # rest \<Rightarrow> if c = CHR '','' then rev rest else s)"

text \<open>
  \<open>insertParameters\<close>. Reading \<open>.pages\<close> of a missing first section, \<open>.source\<close> of a
  missing first page or \<open>.url\<close> of a missing \<open>backlink\<close> throws a \<open>TypeError\<close>.
\<close>

definition insertParameters ::
  "world \<Rightarrow> options \<Rightarrow> parameters \<Rightarrow> section_rec list \<Rightarrow> error + injected" where
  "insertParameters w opts params contents =
     (case contents of
        [] \<Rightarrow> Inl TypeError
      | sec # _ \<Rightarrow>
         (case pages sec of
            [] \<Rightarrow> Inl TypeError
          | homelink # _ \<Rightarrow>
             (let releaseVersion = (case setVersion opts of None \<Rightarrow> p_version params | Some v \<Rightarrow> v);
                  releaseDate = (case setReleaseDate opts of None \<Rightarrow> p_date params | Some d \<Rightarrow> d)
              in case backlink params of
                   None \<Rightarrow> Inl TypeError
                 | Some bl \<Rightarrow>
                     Inr \<lparr>i_logo = logo w,
                          i_homelink = pagePath homelink,
                          i_attribution =
                            ''Created by DocGen '' @ version @ '' on '' @ nowDate w
                            @ '' at '' @ nowTime w @ ''.'',
                          i_releaseVersion = releaseVersion,
                          i_releaseDate = releaseDate,
                          i_author = linkHtml (author params),
                          i_owner = linkHtml (owner params),
                          i_organization = linkHtml (organization params),
                          i_website = linkHtml (website params),
                          i_backlink = linkHtml bl,
                          i_contributors =
                            stripTrailingComma
                              (concat (map (\<lambda>c. linkHtml c @ '', '') (contributors params))),
                          i_copyright =
                            ''&copy; '' @ nowYear w @ '' '' @ linkHtml (organization params),
                          i_webTitle = p_title params,
                          i_webFooter =
                            ''Version '' @ releaseVersion @ '' released on '' @ releaseDate
                            @ ''.''\<rparr>)))"

section \<open>The pipeline\<close>

text \<open>
  What a run does to the outside, in order. \<open>Print\<close> is a line of \<open>console.log\<close>,
  \<open>PrintError\<close> the line that shows the caught error. The other events record a call:
  \<open>fs.removeSync\<close> with \<open>fs.mkdirpSync\<close>, \<open>fs.mkdirsSync\<close>, \<open>fs.writeFile\<close> or
  \<open>fs.outputFileSync\<close>, \<open>fs.copySync\<close>, \<open>fs.removeSync\<close>, \<open>childProcess.exec\<close>,
  \<open>childProcess.spawn\<close> and \<open>mainProcess.exit\<close>; whether the call succeeds is the world's
  answer. Concurrent reads and writes appear in the order in which they are issued.
  The composition of the pages in the document trees of cheerio is not modelled, so a
  write is recorded with its path and without its text.
\<close>

datatype event =
    Print string
  | PrintError
  | RemakeDir string
  | MkDirs string
  | WriteFile string
  | CopyDir string string
  | RemoveDir string
  | Exec string
  | Spawn string string
  | Exit nat

text \<open>
  The variables of \<open>DocGen\<close> that change during a run: \<open>pagesVar\<close> is \<open>pages\<close> (the
  HTML of every source, by source identifier), \<open>tocVar\<close> the table of contents set in the
  main template, \<open>injectedVar\<close> the values set by \<open>insertParameters\<close>. \<open>exitCode\<close> is
  the status given to \<open>mainProcess.exit\<close>, which ends the process: nothing runs after it.
  A run that ends without it ends with status 0.
\<close>

record state =
  trace :: "event list"
  exitCode :: "nat option"
  pagesVar :: "string \<rightharpoonup> string"
  sortedPages :: headings
  tocVar :: string
  injectedVar :: "injected option"

record meta =
  meta_parameters :: parameters
  meta_contents :: "section_rec list"

text \<open>A synchronous part of the run ends normally or by an exception that it does not catch.\<close>

datatype result = Done state | Thrown state

definition initial :: state where
  "initial =
     \<lparr>trace = [], exitCode = None, pagesVar = Map.empty, sortedPages = [], tocVar = [],
      injectedVar = None\<rparr>"

definition exitStatus :: "state \<Rightarrow> nat" where
  "exitStatus s = (case exitCode s of None \<Rightarrow> 0 | Some n \<Rightarrow> n)"

definition emit :: "event \<Rightarrow> state \<Rightarrow> state" where
  "emit e s = s\<lparr>trace := trace s @ [e]\<rparr>"

definition mainProcess_exit :: "nat \<Rightarrow> state \<Rightarrow> state" where
  "mainProcess_exit n s = (emit (Exit n) s)\<lparr>exitCode := Some n\<rparr>"

text \<open>The statement after a call that may have ended the process.\<close>

definition andThen :: "state \<Rightarrow> (state \<Rightarrow> state) \<Rightarrow> state" where
  "andThen s f = (if exitCode s = None then f s else s)"

text \<open>\<open>if (options.verbose === true) { console.log(chalk.red(error)); }\<close>\<close>

definition printError :: "options \<Rightarrow> state \<Rightarrow> state" where
  "printError opts s = (if verbose opts then emit PrintError s else s)"

definition readFile :: "world \<Rightarrow> string \<Rightarrow> state \<Rightarrow> string option \<times> state" where
  "readFile w path s =
     (case readResult w path of
        None \<Rightarrow> (None, emit (Print (''Error reading file: '' @ path)) s)
      | Some data \<Rightarrow> (Some (stripBOM data), s))"

fun readFiles :: "world \<Rightarrow> string list \<Rightarrow> state \<Rightarrow> string option list \<times> state" where
  "readFiles w [] s = ([], s)"
| "readFiles w (path # paths) s =
     (case readFile w path s of (r, s1) \<Rightarrow>
        (case readFiles w paths s1 of (rs, s2) \<Rightarrow> (r # rs, s2)))"

definition writeFile :: "world \<Rightarrow> string \<Rightarrow> state \<Rightarrow> bool \<times> state" where
  "writeFile w path s =
     (let s1 = emit (WriteFile path) s
      in if writeOk w path then (True, s1)
         else (False, emit (Print (''Error writing file: '' @ path)) s1))"

definition copyDirSync :: "world \<Rightarrow> options \<Rightarrow> string \<Rightarrow> string \<Rightarrow> state \<Rightarrow> state" where
  "copyDirSync w opts src destination s =
     (let s1 = emit (CopyDir src destination) s
      in if copyOk w src destination then s1
         else let s2 = emit (Print (''Error copying directory: '' @ src @ '' to '' @ destination)) s1
              in if verbose opts then mainProcess_exit 1 (emit PrintError s2) else s2)"

definition remakeDirSync :: "world \<Rightarrow> options \<Rightarrow> string \<Rightarrow> state \<Rightarrow> state" where
  "remakeDirSync w opts path s =
     (let s1 = emit (RemakeDir path) s
      in if remakeOk w path then s1
         else let s2 = emit (Print (''Error recreating directory: '' @ path)) s1
              in if verbose opts then mainProcess_exit 1 (emit PrintError s2) else s2)"

definition removeDirSync :: "world \<Rightarrow> options \<Rightarrow> string \<Rightarrow> state \<Rightarrow> state" where
  "removeDirSync w opts path s =
     (let s1 = emit (RemoveDir path) s
      in if removeOk w path then s1
         else let s2 = emit (Print (''Error removing directory: '' @ path)) s1
              in if verbose opts then mainProcess_exit 1 (emit PrintError s2) else s2)"

text \<open>
  \<open>createRedirect\<close>. The first page of the first section, which it reads, exists when it
  runs: \<open>insertParameters\<close> has read it before.
\<close>

definition createRedirect :: "world \<Rightarrow> options \<Rightarrow> state \<Rightarrow> state" where
  "createRedirect w opts s =
     (if redirect opts
      then let file = outputDir opts @ ''../'' @ ''index.html'';
               s1 = emit (WriteFile file) s
           in if outputFileOk w file then s1
              else printError opts (emit (Print (''Error writing redirect file: '' @ file)) s1)
      else s)"

definition cleanUp :: "world \<Rightarrow> options \<Rightarrow> state \<Rightarrow> state" where
  "cleanUp w opts s =
     andThen
       (let s1 = createRedirect w opts s
        in if pdf opts then removeDirSync w opts (outputDir opts @ ''temp'') s1 else s1)
       (emit (Print ''Done!''))"

definition generatePdf :: "world \<Rightarrow> options \<Rightarrow> meta \<Rightarrow> state \<Rightarrow> state" where
  "generatePdf w opts m s =
     (let s1 = emit (Print ''Creating the PDF copy (may take some time)'') s;
          args = getPdfArguments w opts (meta_parameters m) (sortedPages s1);
          s2 = emit (Spawn (wkhtmltopdfPath opts) args) s1;
          s3 = (if spawnError w
                then printError opts
                       (emit (Print ''Error calling wkhtmltopdf to generate the PDF'') s2)
                else s2)
      in case closeCode w of
           None \<Rightarrow> s3
         | Some code \<Rightarrow>
             (let s4 = (if \<not> verbose opts then emit (Print []) s3 else s3);
                  s5 = (if code \<noteq> 0
                        then emit (Print ''wkhtmltopdf exited with a warning or error: try the -v option for details'') s4
                        else s4)
              in cleanUp w opts s5))"

definition checkPdfVersion :: "world \<Rightarrow> options \<Rightarrow> meta \<Rightarrow> state \<Rightarrow> state" where
  "checkPdfVersion w opts m s =
     (if pdf opts
      then let s1 = emit (Exec (wkhtmltopdfPath opts @ '' -V'')) s
           in case execVersion w of
                None \<Rightarrow>
                  mainProcess_exit 1
                    (printError opts
                       (emit (Print ''Unable to call wkhtmltopdf. Is it installed and in path? See http://wkhtmltopdf.org'') s1))
              | Some stdout \<Rightarrow>
                  (let actualWkhtmltopdfVersion = trim stdout;
                       s2 = (if actualWkhtmltopdfVersion \<noteq> wkhtmltopdfVersion
                             then emit (Print (''   detected version: '' @ actualWkhtmltopdfVersion))
                                    (emit (Print (''   expected version: '' @ wkhtmltopdfVersion))
                                       (emit (Print ''Warning: unexpected version of wkhtmltopdf, which may work but is not tested or supported'') s1))
                             else s1)
                   in generatePdf w opts m s2)
      else cleanUp w opts s)"

text \<open>
  The handler of a rejected promise chain: the message, the error when verbose, and
  \<open>mainProcess.exit(1)\<close>.
\<close>

definition catchFatal :: "string \<Rightarrow> options \<Rightarrow> state \<Rightarrow> state" where
  "catchFatal msg opts s = mainProcess_exit 1 (printError opts (emit (Print msg) s))"

text \<open>
  \<open>writePages\<close>. \<open>promises\<close> is the object of the write promises: a later write under
  the same key replaces the promise of the earlier one, and \<open>rsvp.hash\<close> waits for the
  promises that the object holds as its own properties in the end. The assignment of a
  promise to the property \<open>__proto__\<close> adds no property (it makes the promise the
  prototype of the object).
\<close>

type_synonym promises = "(string \<times> bool) list"

definition writeKeyed ::
  "world \<Rightarrow> string \<Rightarrow> string \<Rightarrow> promises \<times> state \<Rightarrow> promises \<times> state" where
  "writeKeyed w key path acc =
     (case acc of (promises, s) \<Rightarrow>
        (case writeFile w path s of (ok, s1) \<Rightarrow>
           (if key = ''__proto__'' then promises else AList.update key ok promises, s1)))"

definition writePage :: "world \<Rightarrow> options \<Rightarrow> promises \<times> state \<Rightarrow> page \<Rightarrow> promises \<times> state" where
  "writePage w opts acc p = writeKeyed w (source p) (outputPath opts p) acc"

definition writeSection ::
  "world \<Rightarrow> options \<Rightarrow> promises \<times> state \<Rightarrow> section_rec \<Rightarrow> promises \<times> state" where
  "writeSection w opts acc sec = foldl (writePage w opts) acc (pages sec)"

text \<open>The two callbacks of \<open>rsvp.hash(promises)\<close> in \<open>writePages\<close>.\<close>

definition afterWrites :: "world \<Rightarrow> options \<Rightarrow> meta \<Rightarrow> promises \<times> state \<Rightarrow> state" where
  "afterWrites w opts m acc =
     (case acc of (promises, s) \<Rightarrow>
        if list_all snd promises
        then andThen (copyDirSync w opts (dirname w @ ''/require'') (outputDir opts @ ''require'') s)
               (\<lambda>s1. andThen (copyDirSync w opts (inputDir opts @ ''/files'') (outputDir opts @ ''files'') s1)
                 (\<lambda>s2. andThen
                    (if mathKatex opts
                     then copyDirSync w opts (dirname w @ ''/optional/katex'')
                            (outputDir opts @ ''require/katex'') s2
                     else s2)
                    (checkPdfVersion w opts m)))
        else catchFatal ''Error writing the web page files'' opts s)"

definition writePages :: "world \<Rightarrow> options \<Rightarrow> meta \<Rightarrow> state \<Rightarrow> result" where
  "writePages w opts m s =
     (let s1 = emit (Print ''Writing the web page files'') s;
          acc1 = foldl (writeSection w opts) ([], s1) (meta_contents m);
          acc2 = writeKeyed w ''ownership'' (outputDir opts @ ''ownership.html'') acc1
      in if pdf opts
         then let pdfTempDir = outputDir opts @ ''temp/'';
                  s2 = emit (MkDirs pdfTempDir) (snd acc2)
              in if mkdirsOk w pdfTempDir
                 then Done (afterWrites w opts m
                        (writeKeyed w ''docgenPdfFooter'' (pdfTempDir @ ''pdfFooter.html'')
                          (writeKeyed w ''docgenPdfHeader'' (pdfTempDir @ ''pdfHeader.html'')
                            (writeKeyed w ''docgenPdfCover'' (pdfTempDir @ ''pdfCover.html'')
                              (fst acc2, s2)))))
                 else Thrown s2
         else Done (afterWrites w opts m acc2))"

text \<open>
  \<open>processContent\<close>: the table of contents (\<open>webToc\<close> calls \<open>sortPages\<close>), the
  parameters, the composition of every page (in cheerio, not modelled), \<open>writePages\<close>.
\<close>

definition processContent :: "world \<Rightarrow> options \<Rightarrow> meta \<Rightarrow> state \<Rightarrow> result" where
  "processContent w opts m s =
     (let s1 = emit (Print ''Generating the static web content'') s;
          s2 = s1\<lparr>sortedPages := sortPages (meta_contents m)\<rparr>;
          s3 = s2\<lparr>tocVar := webToc w opts (meta_parameters m) (sortedPages s2)\<rparr>
      in case insertParameters w opts (meta_parameters m) (meta_contents m) of
           Inl e \<Rightarrow> Thrown s3
         | Inr vals \<Rightarrow> writePages w opts m (s3\<lparr>injectedVar := Some vals\<rparr>))"

text \<open>
  \<open>loadMarkdown\<close>. The keys are the pages and, last, the string \<open>'ownership'\<close> (here
  \<open>None\<close>): a string has no \<open>html\<close> and no \<open>source\<close>, so its text is rendered and stored
  under the property name \<open>undefined\<close>.
\<close>

definition keyHtml :: "page option \<Rightarrow> bool" where
  "keyHtml key = (case key of Some p \<Rightarrow> html p | None \<Rightarrow> False)"

definition keySource :: "page option \<Rightarrow> string" where
  "keySource key = (case key of Some p \<Rightarrow> source p | None \<Rightarrow> ''undefined'')"

definition loadKeys :: "section_rec list \<Rightarrow> page option list" where
  "loadKeys contents = map Some (concat (map pages contents)) @ [None]"

definition loadFiles :: "options \<Rightarrow> section_rec list \<Rightarrow> string list" where
  "loadFiles opts contents =
     map (\<lambda>p. inputDir opts @ ''/'' @ source p) (concat (map pages contents))
     @ [inputDir opts @ ''/release-notes.txt'']"

text \<open>
  \<open>pages[key] = text\<close>. \<open>pages\<close> is an object literal and \<open>pagesVar\<close> holds its own
  properties. The assignment of a string to the property \<open>__proto__\<close> stores nothing:
  the setter that the object inherits ignores a value that is no object.
\<close>

definition assignPage :: "(string \<rightharpoonup> string) \<Rightarrow> string \<Rightarrow> string \<Rightarrow> (string \<rightharpoonup> string)" where
  "assignPage pgs key body = (if key = ''__proto__'' then pgs else pgs(key \<mapsto> body))"

text \<open>
  The loop over the texts read: \<open>None\<close> when \<open>markdown.render\<close> throws (the handler of
  that exception throws itself, reading the undeclared \<open>file\<close>).
\<close>

fun storePages ::
  "world \<Rightarrow> (page option \<times> string) list \<Rightarrow> (string \<rightharpoonup> string) \<Rightarrow> (string \<rightharpoonup> string) option" where
  "storePages w [] pgs = Some pgs"
| "storePages w ((key, text) # rest) pgs =
     (if keyHtml key then storePages w rest (assignPage pgs (keySource key) text)
      else case render w text of
             None \<Rightarrow> None
           | Some rendered \<Rightarrow> storePages w rest (assignPage pgs (keySource key) rendered))"

definition loadMarkdown :: "world \<Rightarrow> options \<Rightarrow> meta \<Rightarrow> state \<Rightarrow> state" where
  "loadMarkdown w opts m s =
     (let s1 = emit (Print ''Loading source files'') s;
          keys = loadKeys (meta_contents m)
      in case readFiles w (loadFiles opts (meta_contents m)) s1 of (rs, s2) \<Rightarrow>
           (case those rs of
              None \<Rightarrow> catchFatal ''Error loading source files'' opts s2
            | Some texts \<Rightarrow>
               (case storePages w (zip keys texts) (pagesVar s2) of
                  None \<Rightarrow> catchFatal ''Error loading source files'' opts s2
                | Some pgs \<Rightarrow>
                   (case processContent w opts m (s2\<lparr>pagesVar := pgs\<rparr>) of
                      Thrown s3 \<Rightarrow> catchFatal ''Error loading source files'' opts s3
                    | Done s3 \<Rightarrow> s3))))"

text \<open>\<open>validateJSON\<close>, with \<open>schemas[key]\<close>.\<close>

definition schemas :: "string \<Rightarrow> schema" where
  "schemas key = (if key = ''parameters'' then schemas_parameters else schemas_contents)"

definition validateJSON :: "options \<Rightarrow> string \<Rightarrow> json \<Rightarrow> state \<Rightarrow> bool \<times> state" where
  "validateJSON opts key data s =
     (let valid = validate (schemas key) data
      in if \<not> valid
         then (valid,
               printError opts
                 (emit (Print (''Error parsing required file: '' @ key
                               @ ''.json (failed schema validation)'')) s))
         else (valid, s))"

text \<open>
  One round of the loop of \<open>loadMeta\<close> over its two files: the parsed and validated
  value, or \<open>None\<close> after \<open>mainProcess.exit(1)\<close>.
\<close>

definition loadKey :: "world \<Rightarrow> options \<Rightarrow> string \<Rightarrow> string \<Rightarrow> state \<Rightarrow> json option \<times> state" where
  "loadKey w opts key text s =
     (case parseJSON w text of
        None \<Rightarrow>
          (None,
           mainProcess_exit 1
             (printError opts
                (emit (Print (''Error parsing required file: '' @ key @ ''.json (invalid JSON)'')) s)))
      | Some file \<Rightarrow>
          (case validateJSON opts key file s of (valid, s1) \<Rightarrow>
             if valid then (Some file, s1) else (None, mainProcess_exit 1 s1)))"

definition loadMeta :: "world \<Rightarrow> options \<Rightarrow> state \<Rightarrow> state" where
  "loadMeta w opts s =
     (let s1 = emit (Print ''Loading required JSON metadata files'') s
      in case readFile w (inputDir opts @ ''/parameters.json'') s1 of (rp, s2) \<Rightarrow>
         (case readFile w (inputDir opts @ ''/contents.json'') s2 of (rc, s3) \<Rightarrow>
           (case (rp, rc) of
              (Some tp, Some tc) \<Rightarrow>
                (case loadKey w opts ''parameters'' tp s3 of
                   (None, s4) \<Rightarrow> s4
                 | (Some jp, s4) \<Rightarrow>
                    (case loadKey w opts ''contents'' tc s4 of
                       (None, s5) \<Rightarrow> s5
                     | (Some jc, s5) \<Rightarrow>
                        loadMarkdown w opts
                          \<lparr>meta_parameters = parametersOf jp,
                           meta_contents = contentsOf jc @ [extra]\<rparr> s5))
            | _ \<Rightarrow> catchFatal ''Error loading required JSON metadata files'' opts s3)))"

definition templateFiles :: "world \<Rightarrow> string list" where
  "templateFiles w =
     map (\<lambda>file. dirname w @ ''/templates/'' @ file)
       [''main.html'', ''redirect.html'', ''webCover.html'', ''pdfCover.html'',
        ''pdfHeader.html'', ''pdfFooter.html'']"

definition loadTemplates :: "world \<Rightarrow> options \<Rightarrow> state \<Rightarrow> state" where
  "loadTemplates w opts s =
     (let s1 = emit (Print ''Loading templates'') s
      in case readFiles w (templateFiles w) s1 of (rs, s2) \<Rightarrow>
           (case those rs of
              None \<Rightarrow> catchFatal ''Error loading templates'' opts s2
            | Some files \<Rightarrow> loadMeta w opts s2))"

definition run :: "world \<Rightarrow> options \<Rightarrow> state" where
  "run w opts =
     andThen
       (remakeDirSync w opts (outputDir opts) (emit (Print (''DocGen version '' @ version)) initial))
       (loadTemplates w opts)"

section \<open>Observations of a run\<close>

text \<open>The paths of the files written, in order.\<close>

definition writes :: "state \<Rightarrow> string list" where
  "writes s = concat (map (\<lambda>e. case e of WriteFile path \<Rightarrow> [path] | _ \<Rightarrow> []) (trace s))"

text \<open>
  The events that put something under the output root or start the renderer (recreating
  the empty output root itself is not one of them).
\<close>

definition isOutput :: "event \<Rightarrow> bool" where
  "isOutput e =
     (case e of
        MkDirs _ \<Rightarrow> True
      | WriteFile _ \<Rightarrow> True
      | CopyDir _ _ \<Rightarrow> True
      | Spawn _ _ \<Rightarrow> True
      | _ \<Rightarrow> False)"

definition outputEvents :: "state \<Rightarrow> event list" where
  "outputEvents s = filter isOutput (trace s)"

definition spawns :: "state \<Rightarrow> event list" where
  "spawns s = filter (\<lambda>e. case e of Spawn _ _ \<Rightarrow> True | _ \<Rightarrow> False) (trace s)"

text \<open>The files of a run, by the stage that writes them.\<close>

definition pageFiles :: "options \<Rightarrow> section_rec list \<Rightarrow> string list" where
  "pageFiles opts contents = map (outputPath opts) (concat (map pages contents))"

definition tempFiles :: "options \<Rightarrow> string list" where
  "tempFiles opts =
     (if pdf opts
      then [outputDir opts @ ''temp/pdfCover.html'', outputDir opts @ ''temp/pdfHeader.html'',
            outputDir opts @ ''temp/pdfFooter.html'']
      else [])"

definition redirectFile :: "options \<Rightarrow> string list" where
  "redirectFile opts = (if redirect opts then [outputDir opts @ ''../index.html''] else [])"

definition finalWrites :: "world \<Rightarrow> options \<Rightarrow> string list" where
  "finalWrites w opts = (if pdf opts \<and> closeCode w = None then [] else redirectFile opts)"

text \<open>Two states with the same variables of \<open>DocGen\<close>.\<close>

definition sameVars :: "state \<Rightarrow> state \<Rightarrow> bool" where
  "sameVars s t =
     (sortedPages s = sortedPages t \<and> tocVar s = tocVar t \<and> pagesVar s = pagesVar t
      \<and> injectedVar s = injectedVar t)"



text \<open>
  The output files as the specification lists them: one file for every page that
  \<open>contents.json\<close> declares, and \<open>ownership.html\<close>.
\<close>

definition spec_outputFiles :: "options \<Rightarrow> json \<Rightarrow> string list" where
  "spec_outputFiles opts jc =
     map (outputPath opts) (concat (map pages (contentsOf jc))) @ [outputDir opts @ ''ownership.html'']"

text \<open>A text in which no whitespace character stands.\<close>

fun noSpace :: "string \<Rightarrow> bool" where
  "noSpace [] = True"
| "noSpace (c # cs) = (spaceLen (c # cs) = 0 \<and> noSpace cs)"

text \<open>The three lines of the warning in \<open>checkPdfVersion\<close>.\<close>

definition versionWarning :: "string \<Rightarrow> state \<Rightarrow> state" where
  "versionWarning actual s =
     emit (Print (''   detected version: '' @ actual))
       (emit (Print (''   expected version: '' @ wkhtmltopdfVersion))
          (emit (Print ''Warning: unexpected version of wkhtmltopdf, which may work but is not tested or supported'') s))"

section \<open>Example inputs\<close>

text \<open>
  The scenario of the specification: one section \<open>Guide\<close> in column 1 with one Markdown
  page \<open>intro.md\<close>, parameters with name \<open>Widget\<close> and version \<open>1.0\<close>. In the example
  worlds every file is readable, every write succeeds, \<open>parameters.json\<close> and
  \<open>contents.json\<close> hold the texts \<open>{parameters}\<close> and \<open>[contents]\<close>, which \<open>JSON.parse\<close>
  maps to the values given, and the renderer reports a version other than the pinned one.
\<close>

definition exampleLink :: json where
  "exampleLink = JObj [(''name'', JStr ''Acme''), (''url'', JStr ''http://acme.example'')]"

definition noBacklinkParameters :: json where
  "noBacklinkParameters =
     JObj [(''title'', JStr ''Widget Guide''), (''name'', JStr ''Widget''),
           (''version'', JStr ''1.0''), (''date'', JStr ''01/01/2020''),
           (''organization'', exampleLink), (''author'', exampleLink), (''owner'', exampleLink),
           (''contributors'', JArr [exampleLink]), (''website'', exampleLink),
           (''module'', JStr ''M''), (''id'', JStr ''W-1''), (''summary'', JStr ''S''),
           (''marking'', JStr ''Open''), (''legalese'', JStr ''None'')]"

definition exampleParameters :: json where
  "exampleParameters =
     JObj [(''title'', JStr ''Widget Guide''), (''name'', JStr ''Widget''),
           (''version'', JStr ''1.0''), (''date'', JStr ''01/01/2020''),
           (''organization'', exampleLink), (''author'', exampleLink), (''owner'', exampleLink),
           (''contributors'', JArr [exampleLink]), (''website'', exampleLink),
           (''backlink'', exampleLink),
           (''module'', JStr ''M''), (''id'', JStr ''W-1''), (''summary'', JStr ''S''),
           (''marking'', JStr ''Open''), (''legalese'', JStr ''None'')]"

definition invalidParameters :: json where
  "invalidParameters = JObj [(''name'', JStr ''Widget''), (''version'', JStr ''1.0'')]"

definition exampleContents :: json where
  "exampleContents =
     JArr [JObj [(''heading'', JStr ''Guide''), (''column'', JNum 1),
                 (''pages'', JArr [JObj [(''title'', JStr ''Intro''), (''source'', JStr ''intro.md'')]])]]"

text \<open>Contents that declare a raw HTML page, and contents that declare the release notes as one.\<close>

definition rawContents :: json where
  "rawContents =
     JArr [JObj [(''heading'', JStr ''Guide''), (''column'', JNum 1),
                 (''pages'', JArr [JObj [(''title'', JStr ''Raw''), (''source'', JStr ''raw.html''),
                                         (''html'', JBool True)]])]]"

definition notesContents :: json where
  "notesContents =
     JArr [JObj [(''heading'', JStr ''Guide''), (''column'', JNum 1),
                 (''pages'', JArr [JObj [(''title'', JStr ''Notes''),
                                         (''source'', JStr ''release-notes.txt''),
                                         (''html'', JBool True)]])]]"

definition rawPage :: page where
  "rawPage = \<lparr>title = ''Raw'', source = ''raw.html'', html = True\<rparr>"

definition notesPage :: page where
  "notesPage = \<lparr>title = ''Notes'', source = ''release-notes.txt'', html = True\<rparr>"

text \<open>
  The texts of the examples are ASCII, on which \<open>toLowerCase\<close> changes the letters A to Z
  and nothing else; that is the answer of the example worlds.
\<close>

definition asciiLowerChar :: "char \<Rightarrow> char" where
  "asciiLowerChar c =
     (if 65 \<le> (of_char c :: nat) \<and> (of_char c :: nat) \<le> 90
      then char_of ((of_char c :: nat) + 32) else c)"

definition asciiLower :: "string \<Rightarrow> string" where
  "asciiLower s = map asciiLowerChar s"

definition exampleReads :: "string \<Rightarrow> string option" where
  "exampleReads path =
     (if path = ''in//parameters.json'' then Some ''{parameters}''
      else if path = ''in//contents.json'' then Some ''[contents]''
      else if path = ''in//raw.html'' then Some (BOM @ ''<b>raw</b>'')
      else Some ''# Intro'')"

definition parseWith :: "json \<Rightarrow> json \<Rightarrow> string \<Rightarrow> json option" where
  "parseWith jp jc body =
     (if body = ''{parameters}'' then Some jp
      else if body = ''[contents]'' then Some jc
      else None)"

definition worldWith ::
  "(string \<Rightarrow> json option) \<Rightarrow> (string \<Rightarrow> string \<Rightarrow> bool) \<Rightarrow> string option \<Rightarrow> world" where
  "worldWith parse copies exec =
     \<lparr>dirname = ''/docgen'',
      readResult = exampleReads,
      parseJSON = parse,
      render = (\<lambda>body. Some (''<p>'' @ body @ ''</p>'')),
      writeOk = (\<lambda>path. True),
      copyOk = copies,
      remakeOk = (\<lambda>path. True),
      removeOk = (\<lambda>path. True),
      mkdirsOk = (\<lambda>path. True),
      outputFileOk = (\<lambda>path. True),
      logo = None,
      nowDate = ''01/01/2020'', nowTime = ''12:00:00'', nowYear = ''2020'',
      toStr = (\<lambda>j. case j of JStr s \<Rightarrow> s | _ \<Rightarrow> ''?''),
      toLowerCase = asciiLower,
      execVersion = exec,
      spawnError = False,
      closeCode = Some 0\<rparr>"

definition exampleWorld :: world where
  "exampleWorld =
     worldWith (parseWith exampleParameters exampleContents) (\<lambda>src destination. True)
       (Some ''wkhtmltopdf 0.12.5'')"

definition invalidWorld :: world where
  "invalidWorld =
     worldWith (parseWith invalidParameters exampleContents) (\<lambda>src destination. True)
       (Some ''wkhtmltopdf 0.12.5'')"

text \<open>A world where \<open>JSON.parse\<close> throws on every text.\<close>

definition malformedWorld :: world where
  "malformedWorld =
     worldWith (\<lambda>body. None) (\<lambda>src destination. True) (Some ''wkhtmltopdf 0.12.5'')"

definition noBacklinkWorld :: world where
  "noBacklinkWorld =
     worldWith (parseWith noBacklinkParameters exampleContents) (\<lambda>src destination. True)
       (Some ''wkhtmltopdf 0.12.5'')"

definition notesWorld :: world where
  "notesWorld =
     worldWith (parseWith exampleParameters notesContents) (\<lambda>src destination. True)
       (Some ''wkhtmltopdf 0.12.5'')"

text \<open>A world where the input has no \<open>files\<close> directory, so that copying it fails.\<close>

definition copyFailWorld :: world where
  "copyFailWorld =
     worldWith (parseWith exampleParameters exampleContents)
       (\<lambda>src destination. src \<noteq> ''in//files'') (Some ''wkhtmltopdf 0.12.5'')"

text \<open>A world where the renderer cannot be executed.\<close>

definition noRendererWorld :: world where
  "noRendererWorld =
     worldWith (parseWith exampleParameters exampleContents) (\<lambda>src destination. True) None"

definition optionsWith :: "bool \<Rightarrow> bool \<Rightarrow> options" where
  "optionsWith v p =
     \<lparr>inputDir = ''in/'', outputDir = ''out/'', wkhtmltopdfPath = ''wkhtmltopdf'', pdf = p,
      pdfDelay = ''1000'', verbose = v, redirect = False, pageToc = False,
      mathKatex = False, mathMathjax = False, setVersion = None, setReleaseDate = None\<rparr>"

definition exampleOptions :: options where
  "exampleOptions = optionsWith False False"

definition verboseOptions :: options where
  "verboseOptions = optionsWith True False"

definition pdfExampleOptions :: options where
  "pdfExampleOptions = optionsWith False True"

definition exampleMeta :: meta where
  "exampleMeta =
     \<lparr>meta_parameters = parametersOf exampleParameters,
      meta_contents = contentsOf exampleContents @ [extra]\<rparr>"

section \<open>Heading anchors\<close>

lemma spaceChars_props:
  "\<forall>e\<in>set spaceChars. e \<noteq> [] \<and> CHR ''-'' \<notin> set e"
  by (simp add: spaceChars_def)

lemma matchLen_zero_iff:
  assumes "\<forall>e\<in>set encs. e \<noteq> []"
  shows "(matchLen encs s = 0) = (\<forall>e\<in>set encs. take (length e) s \<noteq> e)"
proof (cases "filter (\<lambda>e. take (length e) s = e) encs")
  case Nil
  then show ?thesis
    by (auto simp: matchLen_def filter_empty_conv)
next
  case (Cons e es)
  then have "e \<in> set (filter (\<lambda>e. take (length e) s = e) encs)"
    by simp
  then have "e \<in> set encs" "take (length e) s = e"
    by simp_all
  with assms Cons show ?thesis
    by (auto simp: matchLen_def)
qed

lemma spaceLen_zero_iff:
  "(spaceLen s = 0) = (\<forall>e\<in>set spaceChars. take (length e) s \<noteq> e)"
  unfolding spaceLen_def using spaceChars_props by (intro matchLen_zero_iff) blast

lemma spaceLen_hyphen: "spaceLen (CHR ''-'' # t) = 0"
proof -
  have "\<forall>e\<in>set spaceChars. take (length e) (CHR ''-'' # t) \<noteq> e"
  proof
    fix e assume e: "e \<in> set spaceChars"
    with spaceChars_props have ne: "e \<noteq> []" and nh: "CHR ''-'' \<notin> set e" by blast+
    show "take (length e) (CHR ''-'' # t) \<noteq> e"
    proof
      assume "take (length e) (CHR ''-'' # t) = e"
      with ne have "hd e = CHR ''-''" by (cases e) auto
      with ne nh show False by (cases e) auto
    qed
  qed
  then show ?thesis by (simp add: spaceLen_zero_iff)
qed

lemma replaceRuns_head:
  "replaceRuns False cs = b # rest \<Longrightarrow> b \<noteq> CHR ''-'' \<Longrightarrow>
     \<exists>cs'. cs = b # cs' \<and> rest = replaceRuns False cs'"
  by (cases cs) (auto split: if_splits)

lemma replaceRuns_prefix:
  "CHR ''-'' \<notin> set e \<Longrightarrow> take (length e) (replaceRuns False cs) = e \<Longrightarrow> take (length e) cs = e"
proof (induction e arbitrary: cs)
  case Nil
  then show ?case by simp
next
  case (Cons b e)
  from Cons.prems(2) obtain rest where r: "replaceRuns False cs = b # rest" "take (length e) rest = e"
    by (cases "replaceRuns False cs") auto
  from Cons.prems(1) have "b \<noteq> CHR ''-''" by auto
  from replaceRuns_head [OF r(1) this] obtain cs' where c: "cs = b # cs'" "rest = replaceRuns False cs'"
    by blast
  from Cons.IH [of cs'] Cons.prems(1) r(2) c(2) have "take (length e) cs' = e"
    by simp
  with c(1) show ?case by simp
qed

lemma spaceLen_cons_replaceRuns:
  assumes "spaceLen (c # cs) = 0"
  shows "spaceLen (c # replaceRuns False cs) = 0"
proof -
  have "\<forall>e\<in>set spaceChars. take (length e) (c # replaceRuns False cs) \<noteq> e"
  proof
    fix e assume e: "e \<in> set spaceChars"
    with spaceChars_props have ne: "e \<noteq> []" and nh: "CHR ''-'' \<notin> set e" by blast+
    show "take (length e) (c # replaceRuns False cs) \<noteq> e"
    proof
      assume m: "take (length e) (c # replaceRuns False cs) = e"
      from ne obtain b e' where be: "e = b # e'" by (cases e) auto
      with m have "b = c" and "take (length e') (replaceRuns False cs) = e'"
        by simp_all
      moreover from nh be have "CHR ''-'' \<notin> set e'" by simp
      ultimately have "take (length e') cs = e'"
        using replaceRuns_prefix by blast
      with \<open>b = c\<close> be have "take (length e) (c # cs) = e" by simp
      with e assms show False by (simp add: spaceLen_zero_iff)
    qed
  qed
  then show ?thesis by (simp add: spaceLen_zero_iff)
qed

lemma noSpace_replaceRuns: "noSpace (replaceRuns inRun s)"
proof (induction inRun s rule: replaceRuns.induct)
  case (1 inRun)
  then show ?case by simp
next
  case (2 inRun c cs)
  show ?case
  proof (cases "spaceLen (c # cs) = 0")
    case True
    with 2 spaceLen_cons_replaceRuns [OF True] show ?thesis by simp
  next
    case False
    with 2 show ?thesis by (simp add: spaceLen_hyphen)
  qed
qed

lemma replaceRuns_noSpace: "noSpace t \<Longrightarrow> replaceRuns inRun t = t"
  by (induction t arbitrary: inRun) auto

lemma replaceSpaceRuns_idem: "replaceSpaceRuns (replaceSpaceRuns s) = replaceSpaceRuns s"
  by (simp add: replaceSpaceRuns_def replaceRuns_noSpace noSpace_replaceRuns)

lemma replaceRuns_set: "set (replaceRuns inRun s) \<subseteq> insert CHR ''-'' (set s)"
proof (induction inRun s rule: replaceRuns.induct)
  case (1 inRun)
  then show ?case by simp
next
  case (2 inRun c cs)
  show ?case
  proof (cases "spaceLen (c # cs) = 0")
    case True
    with 2 show ?thesis by auto
  next
    case False
    with 2 have "set (replaceRuns True (drop (spaceLen (c # cs) - 1) cs))
        \<subseteq> insert CHR ''-'' (set (drop (spaceLen (c # cs) - 1) cs))"
      by simp
    also have "\<dots> \<subseteq> insert CHR ''-'' (set cs)"
      using set_drop_subset [of "spaceLen (c # cs) - 1" cs] by auto
    finally show ?thesis using False by auto
  qed
qed

lemma asciiLowerChar_idem: "asciiLowerChar (asciiLowerChar c) = asciiLowerChar c"
  by (auto simp: asciiLowerChar_def)

lemma asciiLower_idem: "asciiLower (asciiLower s) = asciiLower s"
  by (simp add: asciiLower_def asciiLowerChar_idem)

lemma asciiLower_stable:
  assumes "asciiLower t = t"
  shows "asciiLower (replaceSpaceRuns t) = replaceSpaceRuns t"
proof -
  from assms have "map asciiLowerChar t = map id t"
    by (simp add: asciiLower_def)
  then have fixed: "\<forall>c\<in>set t. asciiLowerChar c = c"
    by (simp only: map_eq_conv id_apply)
  have "asciiLowerChar CHR ''-'' = CHR ''-''"
    by (simp add: asciiLowerChar_def)
  with fixed replaceRuns_set [of False t]
  have "\<forall>c\<in>set (replaceSpaceRuns t). asciiLowerChar c = c"
    by (auto simp: replaceSpaceRuns_def)
  then show ?thesis
    by (simp add: asciiLower_def map_idI)
qed

text \<open>
  Claim C9. The anchor of a heading (the heading text in lowercase, every whitespace run
  replaced by one hyphen) is idempotent: the anchor of an anchor is that anchor. It is a
  function of the heading text: equal texts have equal anchors. The replacement of the
  whitespace runs is the program's and is proved idempotent as it stands, for every
  text. \<open>toLowerCase\<close> is the engine's; of it the theorem asks what the lowercase
  conversion of Unicode has: converting twice is converting once, and a text that the
  conversion leaves as it is stays so when its whitespace runs become hyphens.
\<close>

theorem anchor_idempotent_deterministic:
  assumes "\<forall>s. toLowerCase w (toLowerCase w s) = toLowerCase w s"
    and "\<forall>t. toLowerCase w t = t \<longrightarrow> toLowerCase w (replaceSpaceRuns t) = replaceSpaceRuns t"
  shows "anchor w (anchor w s) = anchor w s \<and> (s = t \<longrightarrow> anchor w s = anchor w t)"
proof -
  let ?l = "toLowerCase w s"
  from assms(1) have "toLowerCase w ?l = ?l"
    by simp
  with assms(2) have "toLowerCase w (replaceSpaceRuns ?l) = replaceSpaceRuns ?l"
    by blast
  then have "anchor w (anchor w s) = replaceSpaceRuns (replaceSpaceRuns ?l)"
    by (simp add: anchor_def)
  then show ?thesis
    by (simp add: replaceSpaceRuns_idem anchor_def)
qed

theorem anchor_idempotent_deterministic_witness:
  "anchor exampleWorld (anchor exampleWorld (''Getting  '' @ [CHR 0xC2, CHR 0xA0] @ ''Started''))
     = ''getting-started''
   \<and> anchor exampleWorld (''Getting  '' @ [CHR 0xC2, CHR 0xA0] @ ''Started'')
     = anchor exampleWorld (''Getting  '' @ [CHR 0xC2, CHR 0xA0] @ ''Started'')"
proof -
  have l: "toLowerCase exampleWorld = asciiLower"
    by (simp add: exampleWorld_def worldWith_def)
  have h1: "\<forall>s. toLowerCase exampleWorld (toLowerCase exampleWorld s) = toLowerCase exampleWorld s"
    by (simp add: l asciiLower_idem)
  have h2: "\<forall>t. toLowerCase exampleWorld t = t
              \<longrightarrow> toLowerCase exampleWorld (replaceSpaceRuns t) = replaceSpaceRuns t"
    by (simp add: l asciiLower_stable)
  have e: "anchor exampleWorld (''Getting  '' @ [CHR 0xC2, CHR 0xA0] @ ''Started'') = ''getting-started''"
    by code_simp
  from anchor_idempotent_deterministic [OF h1 h2, of "''Getting  '' @ [CHR 0xC2, CHR 0xA0] @ ''Started''"
      "''Getting  '' @ [CHR 0xC2, CHR 0xA0] @ ''Started''"] e
  show ?thesis
    by simp
qed

section \<open>Navigation and validation\<close>








lemma items_oneOf: "check (Items [OneOf [s]]) (JArr vs) = list_all (validate s) vs"
  by (induction vs) (auto simp: validate_def)

lemma validate_contents_sections:
  "validate schemas_contents (JArr secs) = list_all (validate sectionSchema) secs"
proof -
  have "validate schemas_contents (JArr secs) = check (Items [OneOf [sectionSchema]]) (JArr secs)"
    by (simp add: validate_def schemas_contents_def hasType_def del: check.simps(5))
  then show ?thesis
    by (simp only: items_oneOf)
qed

lemma validate_section_fields:
  "validate sectionSchema (JObj [(''heading'', h), (''column'', JNum (of_int c)), (''pages'', JArr ps)])
   = (1 \<le> c \<and> c \<le> 4 \<and> list_all (validate pageSchema) ps)"
proof -
  have "validate sectionSchema (JObj [(''heading'', h), (''column'', JNum (of_int c)), (''pages'', JArr ps)])
        = (1 \<le> c \<and> c \<le> 4 \<and> check (Items [OneOf [pageSchema]]) (JArr ps))"
    by (simp add: validate_def sectionSchema_def hasType_def del: check.simps(5))
  then show ?thesis
    by (simp only: items_oneOf)
qed

text \<open>
  Claim C4, as amended. A contents list passes the validation of \<open>contents.json\<close> when
  every section passes, and a section with a heading, an integer column and a list of
  pages passes exactly when the column is between 1 and 4 and every page is valid: the
  range that the schema accepts is 1 to 4, and column 5 is left to the section that the
  program adds itself.
\<close>

theorem section_column_accepted:
  "validate schemas_contents (JArr secs) = list_all (validate sectionSchema) secs
   \<and> validate sectionSchema
        (JObj [(''heading'', h), (''column'', JNum (of_int c)), (''pages'', JArr ps)])
      = (1 \<le> c \<and> c \<le> 4 \<and> list_all (validate pageSchema) ps)"
  by (simp only: validate_contents_sections validate_section_fields simp_thms)

text \<open>The claim as stated fails: a section in column 5 does not pass validation.\<close>

theorem section_column_5_rejected:
  "\<not> validate schemas_contents
       (JArr [JObj [(''heading'', JStr ''Guide''), (''column'', JNum 5),
                    (''pages'', JArr [JObj [(''title'', JStr ''Intro''), (''source'', JStr ''intro.md'')]])]])"
  by (simp add: validate_def schemas_contents_def sectionSchema_def hasType_def)

section \<open>The files of a completed run\<close>

lemma emit_simps [simp]:
  "trace (emit e s) = trace s @ [e]" "exitCode (emit e s) = exitCode s"
  "sameVars (emit e s) t = sameVars s t"
  by (simp_all add: emit_def sameVars_def)

lemma exit_simps [simp]:
  "trace (mainProcess_exit n s) = trace s @ [Exit n]" "exitCode (mainProcess_exit n s) = Some n"
  "sameVars (mainProcess_exit n s) t = sameVars s t"
  by (simp_all add: mainProcess_exit_def sameVars_def emit_def)

lemma printError_simps [simp]:
  "exitCode (printError opts s) = exitCode s"
  "sameVars (printError opts s) t = sameVars s t"
  "writes (printError opts s) = writes s"
  by (simp_all add: printError_def writes_def)

lemma writes_simps [simp]:
  "writes (emit (WriteFile path) s) = writes s @ [path]"
  "writes (emit (Print msg) s) = writes s"
  "writes (emit PrintError s) = writes s"
  "writes (emit (RemakeDir path) s) = writes s"
  "writes (emit (MkDirs path) s) = writes s"
  "writes (emit (CopyDir src dst) s) = writes s"
  "writes (emit (RemoveDir path) s) = writes s"
  "writes (emit (Exec cmd) s) = writes s"
  "writes (emit (Spawn cmd args) s) = writes s"
  "writes (mainProcess_exit n s) = writes s"
  by (simp_all add: writes_def)

lemma sameVars_refl [simp]: "sameVars s s"
  by (simp add: sameVars_def)

lemma catchFatal_simps [simp]:
  "exitCode (catchFatal msg opts s) = Some 1"
  by (simp add: catchFatal_def)

lemma copyDirSync_frame [simp]:
  "writes (copyDirSync w opts src dst s) = writes s"
  "sameVars (copyDirSync w opts src dst s) t = sameVars s t"
  by (simp_all add: copyDirSync_def Let_def)

lemma remakeDirSync_frame [simp]:
  "writes (remakeDirSync w opts path s) = writes s"
  "sameVars (remakeDirSync w opts path s) t = sameVars s t"
  by (simp_all add: remakeDirSync_def Let_def)

lemma removeDirSync_frame [simp]:
  "writes (removeDirSync w opts path s) = writes s"
  "sameVars (removeDirSync w opts path s) t = sameVars s t"
  by (simp_all add: removeDirSync_def Let_def)

lemma createRedirect_frame [simp]:
  "writes (createRedirect w opts s) = writes s @ redirectFile opts"
  "sameVars (createRedirect w opts s) t = sameVars s t"
  "exitCode (createRedirect w opts s) = exitCode s"
  by (simp_all add: createRedirect_def Let_def redirectFile_def)

lemma cleanUp_frame [simp]:
  "writes (cleanUp w opts s) = writes s @ redirectFile opts"
  "sameVars (cleanUp w opts s) t = sameVars s t"
  by (simp_all add: cleanUp_def Let_def andThen_def)

lemma generatePdf_frame [simp]:
  "writes (generatePdf w opts m s) = writes s @ (if closeCode w = None then [] else redirectFile opts)"
  "sameVars (generatePdf w opts m s) t = sameVars s t"
  by (simp_all add: generatePdf_def Let_def split: option.splits)

lemma checkPdfVersion_frame:
  "sameVars (checkPdfVersion w opts m s) t = sameVars s t"
  "exitCode (checkPdfVersion w opts m s) = None \<Longrightarrow>
     writes (checkPdfVersion w opts m s) = writes s @ finalWrites w opts"
  by (auto simp: checkPdfVersion_def Let_def finalWrites_def split: option.splits)

lemma afterWrites_vars:
  "sameVars (afterWrites w opts m (promises, s)) t = sameVars s t"
  by (auto simp: afterWrites_def andThen_def checkPdfVersion_frame catchFatal_def split: if_splits)

lemma afterWrites_writes:
  "exitCode (afterWrites w opts m (promises, s)) = None \<Longrightarrow>
     writes (afterWrites w opts m (promises, s)) = writes s @ finalWrites w opts"
  by (auto simp: afterWrites_def andThen_def checkPdfVersion_frame catchFatal_def split: if_splits)

lemma writeKeyed_frame:
  "writeKeyed w key path (promises, s) = (promises', s') \<Longrightarrow>
     writes s' = writes s @ [path] \<and> sameVars s' t = sameVars s t \<and> exitCode s' = exitCode s"
  by (auto simp: writeKeyed_def writeFile_def Let_def split: if_splits)

lemma writePages_fold_pages:
  "foldl (writePage w opts) (promises, s) ps = (promises', s') \<Longrightarrow>
     writes s' = writes s @ map (outputPath opts) ps \<and> sameVars s' t = sameVars s t
     \<and> exitCode s' = exitCode s"
proof (induction ps arbitrary: promises s)
  case Nil
  then show ?case by simp
next
  case (Cons p ps)
  obtain pr1 s1 where step: "writePage w opts (promises, s) p = (pr1, s1)"
    by (cases "writePage w opts (promises, s) p")
  from step have "writes s1 = writes s @ [outputPath opts p] \<and> sameVars s1 t = sameVars s t
      \<and> exitCode s1 = exitCode s"
    unfolding writePage_def by (rule writeKeyed_frame)
  moreover from Cons.prems step have "foldl (writePage w opts) (pr1, s1) ps = (promises', s')"
    by simp
  from Cons.IH [OF this] have "writes s' = writes s1 @ map (outputPath opts) ps
      \<and> sameVars s' t = sameVars s1 t \<and> exitCode s' = exitCode s1" .
  ultimately show ?case by simp
qed

lemma writePages_fold_sections:
  "foldl (writeSection w opts) (promises, s) cs = (promises', s') \<Longrightarrow>
     writes s' = writes s @ pageFiles opts cs \<and> sameVars s' t = sameVars s t
     \<and> exitCode s' = exitCode s"
proof (induction cs arbitrary: promises s)
  case Nil
  then show ?case by (simp add: pageFiles_def)
next
  case (Cons sec cs)
  obtain pr1 s1 where step: "writeSection w opts (promises, s) sec = (pr1, s1)"
    by (cases "writeSection w opts (promises, s) sec")
  from step have "writes s1 = writes s @ map (outputPath opts) (pages sec)
      \<and> sameVars s1 t = sameVars s t \<and> exitCode s1 = exitCode s"
    unfolding writeSection_def by (rule writePages_fold_pages)
  moreover from Cons.prems step have "foldl (writeSection w opts) (pr1, s1) cs = (promises', s')"
    by simp
  from Cons.IH [OF this] have "writes s' = writes s1 @ pageFiles opts cs
      \<and> sameVars s' t = sameVars s1 t \<and> exitCode s' = exitCode s1" .
  ultimately show ?case by (simp add: pageFiles_def)
qed

lemma writePages_frame:
  assumes "writePages w opts m s = Done s'" and "exitCode s' = None"
  shows "writes s' = writes s @ pageFiles opts (meta_contents m) @ [outputDir opts @ ''ownership.html'']
           @ tempFiles opts @ finalWrites w opts
         \<and> sameVars s' t = sameVars s t"
proof -
  let ?s1 = "emit (Print ''Writing the web page files'') s"
  obtain pr1 s1 where a1: "foldl (writeSection w opts) ([], ?s1) (meta_contents m) = (pr1, s1)"
    by (cases "foldl (writeSection w opts) ([], ?s1) (meta_contents m)")
  from writePages_fold_sections [OF a1, of t]
  have f1: "writes s1 = writes s @ pageFiles opts (meta_contents m)" "sameVars s1 t = sameVars s t"
    by simp_all
  obtain pr2 s2 where a2: "writeKeyed w ''ownership'' (outputDir opts @ ''ownership.html'') (pr1, s1) = (pr2, s2)"
    by (cases "writeKeyed w ''ownership'' (outputDir opts @ ''ownership.html'') (pr1, s1)")
  from writeKeyed_frame [OF a2, of t] f1
  have f2: "writes s2 = writes s @ pageFiles opts (meta_contents m) @ [outputDir opts @ ''ownership.html'']"
    "sameVars s2 t = sameVars s t"
    by simp_all
  show ?thesis
  proof (cases "pdf opts")
    case False
    with assms a1 a2 have "s' = afterWrites w opts m (pr2, s2)"
      by (simp add: writePages_def Let_def)
    with assms(2) afterWrites_writes [of w opts m pr2 s2] afterWrites_vars [of w opts m pr2 s2 t] f2 False show ?thesis
      by (simp add: tempFiles_def)
  next
    case True
    let ?tmp = "outputDir opts @ ''temp/''"
    let ?s3 = "emit (MkDirs ?tmp) s2"
    obtain pr4 s4 where a4: "writeKeyed w ''docgenPdfCover'' (?tmp @ ''pdfCover.html'') (pr2, ?s3) = (pr4, s4)"
      by (cases "writeKeyed w ''docgenPdfCover'' (?tmp @ ''pdfCover.html'') (pr2, ?s3)")
    obtain pr5 s5 where a5: "writeKeyed w ''docgenPdfHeader'' (?tmp @ ''pdfHeader.html'') (pr4, s4) = (pr5, s5)"
      by (cases "writeKeyed w ''docgenPdfHeader'' (?tmp @ ''pdfHeader.html'') (pr4, s4)")
    obtain pr6 s6 where a6: "writeKeyed w ''docgenPdfFooter'' (?tmp @ ''pdfFooter.html'') (pr5, s5) = (pr6, s6)"
      by (cases "writeKeyed w ''docgenPdfFooter'' (?tmp @ ''pdfFooter.html'') (pr5, s5)")
    from writeKeyed_frame [OF a4, of t] writeKeyed_frame [OF a5, of t] writeKeyed_frame [OF a6, of t] f2
    have f6: "writes s6 = writes s @ pageFiles opts (meta_contents m) @ [outputDir opts @ ''ownership.html'']
                @ tempFiles opts"
      "sameVars s6 t = sameVars s t"
      using True by (simp_all add: tempFiles_def)
    from assms(1) a1 a2 a4 a5 a6 True have "s' = afterWrites w opts m (pr6, s6)"
      by (simp add: writePages_def Let_def split: if_splits)
    with assms(2) afterWrites_writes [of w opts m pr6 s6] afterWrites_vars [of w opts m pr6 s6 t] f6 show ?thesis
      by simp
  qed
qed

lemma processContent_frame:
  assumes "processContent w opts m s = Done s'" and "exitCode s' = None"
  shows "writes s' = writes s @ pageFiles opts (meta_contents m) @ [outputDir opts @ ''ownership.html'']
           @ tempFiles opts @ finalWrites w opts"
    and "sortedPages s' = sortPages (meta_contents m)"
    and "tocVar s' = webToc w opts (meta_parameters m) (sortPages (meta_contents m))"
    and "pagesVar s' = pagesVar s"
proof -
  let ?s3 = "(emit (Print ''Generating the static web content'') s)
               \<lparr>sortedPages := sortPages (meta_contents m),
                tocVar := webToc w opts (meta_parameters m) (sortPages (meta_contents m))\<rparr>"
  from assms(1) obtain vals where
    wp: "writePages w opts m (?s3\<lparr>injectedVar := Some vals\<rparr>) = Done s'"
    by (auto simp: processContent_def Let_def split: sum.splits)
  let ?t = "?s3\<lparr>injectedVar := Some vals\<rparr>"
  from writePages_frame [OF wp assms(2), of ?t]
  have "writes s' = writes ?t @ pageFiles opts (meta_contents m) @ [outputDir opts @ ''ownership.html'']
           @ tempFiles opts @ finalWrites w opts" and sv: "sameVars s' ?t"
    by simp_all
  moreover have "writes ?t = writes s"
    by (simp add: writes_def emit_def)
  ultimately show "writes s' = writes s @ pageFiles opts (meta_contents m) @ [outputDir opts @ ''ownership.html'']
           @ tempFiles opts @ finalWrites w opts"
    by simp
  from sv show "sortedPages s' = sortPages (meta_contents m)"
    and "tocVar s' = webToc w opts (meta_parameters m) (sortPages (meta_contents m))"
    and "pagesVar s' = pagesVar s"
    by (simp_all add: sameVars_def emit_def)
qed

lemma readFile_frame:
  "readFile w path s = (r, s') \<Longrightarrow>
     r = map_option stripBOM (readResult w path) \<and> writes s' = writes s
     \<and> exitCode s' = exitCode s \<and> sameVars s' t = sameVars s t"
  by (auto simp: readFile_def split: option.splits)

lemma readFiles_frame:
  "readFiles w paths s = (rs, s') \<Longrightarrow>
     rs = map (\<lambda>path. map_option stripBOM (readResult w path)) paths \<and> writes s' = writes s
     \<and> exitCode s' = exitCode s \<and> sameVars s' t = sameVars s t"
proof (induction paths arbitrary: s rs s')
  case Nil
  then show ?case by simp
next
  case (Cons path paths)
  obtain r s1 where a: "readFile w path s = (r, s1)"
    by (cases "readFile w path s")
  obtain rs1 s2 where b: "readFiles w paths s1 = (rs1, s2)"
    by (cases "readFiles w paths s1")
  from Cons.prems a b have c: "rs = r # rs1" "s' = s2"
    by simp_all
  from readFile_frame [OF a, of t] Cons.IH [OF b] c show ?case
    by simp
qed

lemma loadMarkdown_frame:
  assumes "exitCode (loadMarkdown w opts m s) = None"
  shows "writes (loadMarkdown w opts m s)
           = writes s @ pageFiles opts (meta_contents m) @ [outputDir opts @ ''ownership.html'']
             @ tempFiles opts @ finalWrites w opts"
    and "sortedPages (loadMarkdown w opts m s) = sortPages (meta_contents m)"
    and "tocVar (loadMarkdown w opts m s) = webToc w opts (meta_parameters m) (sortPages (meta_contents m))"
proof -
  let ?s1 = "emit (Print ''Loading source files'') s"
  obtain rs s2 where rf: "readFiles w (loadFiles opts (meta_contents m)) ?s1 = (rs, s2)"
    by (cases "readFiles w (loadFiles opts (meta_contents m)) ?s1")
  from readFiles_frame [OF rf, of s2] have w2: "writes s2 = writes s"
    by simp
  from assms rf obtain texts pgs s3 where
    pc: "processContent w opts m (s2\<lparr>pagesVar := pgs\<rparr>) = Done s3"
    and res: "loadMarkdown w opts m s = s3"
    by (auto simp: loadMarkdown_def Let_def split: option.splits result.splits)
  from assms res have e3: "exitCode s3 = None"
    by simp
  have "writes (s2\<lparr>pagesVar := pgs\<rparr>) = writes s2"
    by (simp add: writes_def)
  with processContent_frame [OF pc e3] w2 res
  show "writes (loadMarkdown w opts m s)
           = writes s @ pageFiles opts (meta_contents m) @ [outputDir opts @ ''ownership.html'']
             @ tempFiles opts @ finalWrites w opts"
    and "sortedPages (loadMarkdown w opts m s) = sortPages (meta_contents m)"
    and "tocVar (loadMarkdown w opts m s) = webToc w opts (meta_parameters m) (sortPages (meta_contents m))"
    by simp_all
qed

lemma loadKey_frame:
  "loadKey w opts key text s = (Some j, s') \<Longrightarrow>
     parseJSON w text = Some j \<and> validate (schemas key) j \<and> s' = s"
  by (auto simp: loadKey_def validateJSON_def Let_def split: option.splits if_splits)

lemma loadKey_exit:
  "loadKey w opts key text s = (None, s') \<Longrightarrow> exitCode s' = Some 1"
  by (auto simp: loadKey_def validateJSON_def Let_def split: option.splits if_splits)

lemma loadMeta_frame:
  assumes "exitCode (loadMeta w opts s) = None"
  shows "\<exists>tp tc jp jc.
           readResult w (inputDir opts @ ''/parameters.json'') = Some tp
           \<and> parseJSON w (stripBOM tp) = Some jp \<and> validate schemas_parameters jp
           \<and> readResult w (inputDir opts @ ''/contents.json'') = Some tc
           \<and> parseJSON w (stripBOM tc) = Some jc \<and> validate schemas_contents jc
           \<and> writes (loadMeta w opts s)
               = writes s @ pageFiles opts (contentsOf jc @ [extra])
                 @ [outputDir opts @ ''ownership.html''] @ tempFiles opts @ finalWrites w opts
           \<and> sortedPages (loadMeta w opts s) = sortPages (contentsOf jc @ [extra])
           \<and> tocVar (loadMeta w opts s)
               = webToc w opts (parametersOf jp) (sortPages (contentsOf jc @ [extra]))"
proof -
  let ?s1 = "emit (Print ''Loading required JSON metadata files'') s"
  obtain rp s2 where a: "readFile w (inputDir opts @ ''/parameters.json'') ?s1 = (rp, s2)"
    by (cases "readFile w (inputDir opts @ ''/parameters.json'') ?s1")
  obtain rc s3 where b: "readFile w (inputDir opts @ ''/contents.json'') s2 = (rc, s3)"
    by (cases "readFile w (inputDir opts @ ''/contents.json'') s2")
  from readFile_frame [OF a, of s2] readFile_frame [OF b, of s3]
  have fr: "rp = map_option stripBOM (readResult w (inputDir opts @ ''/parameters.json''))"
    "rc = map_option stripBOM (readResult w (inputDir opts @ ''/contents.json''))"
    "writes s3 = writes s"
    by simp_all
  from assms a b obtain tp tc where r: "rp = Some tp" "rc = Some tc"
    by (auto simp: loadMeta_def Let_def split: option.splits)
  obtain op s4 where c: "loadKey w opts ''parameters'' tp s3 = (op, s4)"
    by (cases "loadKey w opts ''parameters'' tp s3")
  from assms a b r c loadKey_exit [of w opts "''parameters''" tp s3 s4]
  obtain jp where jp: "op = Some jp"
    by (cases op) (auto simp: loadMeta_def Let_def)
  obtain oc s5 where d: "loadKey w opts ''contents'' tc s4 = (oc, s5)"
    by (cases "loadKey w opts ''contents'' tc s4")
  from assms a b r c jp d loadKey_exit [of w opts "''contents''" tc s4 s5]
  obtain jc where jc: "oc = Some jc"
    by (cases oc) (auto simp: loadMeta_def Let_def)
  let ?m = "\<lparr>meta_parameters = parametersOf jp, meta_contents = contentsOf jc @ [extra]\<rparr>"
  from a b r c jp d jc have res: "loadMeta w opts s = loadMarkdown w opts ?m s5"
    by (simp add: loadMeta_def Let_def)
  from loadKey_frame c jp have kp: "parseJSON w tp = Some jp" "validate schemas_parameters jp" "s4 = s3"
    by (fastforce simp: schemas_def)+
  from loadKey_frame d jc have kc: "parseJSON w tc = Some jc" "validate schemas_contents jc" "s5 = s4"
    by (fastforce simp: schemas_def)+
  from fr(1) r(1) obtain rawp where rawp:
    "readResult w (inputDir opts @ ''/parameters.json'') = Some rawp" "tp = stripBOM rawp"
    by (cases "readResult w (inputDir opts @ ''/parameters.json'')") auto
  from fr(2) r(2) obtain rawc where rawc:
    "readResult w (inputDir opts @ ''/contents.json'') = Some rawc" "tc = stripBOM rawc"
    by (cases "readResult w (inputDir opts @ ''/contents.json'')") auto
  note raw = rawp rawc
  from assms res have "exitCode (loadMarkdown w opts ?m s5) = None"
    by simp
  from loadMarkdown_frame [OF this] res kp kc fr raw show ?thesis
    by simp
qed

lemma run_loadMeta:
  assumes "exitCode (run w opts) = None"
  shows "\<exists>s. run w opts = loadMeta w opts s \<and> writes s = []"
proof -
  let ?s0 = "remakeDirSync w opts (outputDir opts) (emit (Print (''DocGen version '' @ version)) initial)"
  let ?s1 = "emit (Print ''Loading templates'') ?s0"
  have "writes initial = []"
    by (simp add: writes_def initial_def)
  then have w0: "writes ?s0 = []"
    by simp
  obtain rs s2 where rf: "readFiles w (templateFiles w) ?s1 = (rs, s2)"
    by (cases "readFiles w (templateFiles w) ?s1")
  from readFiles_frame [OF rf, of s2] w0 have w2: "writes s2 = []"
    by simp
  from assms have "run w opts = loadTemplates w opts ?s0"
    by (auto simp: run_def andThen_def split: if_splits)
  with assms rf have "run w opts = loadMeta w opts s2"
    by (auto simp: loadTemplates_def Let_def split: option.splits)
  with w2 show ?thesis by blast
qed

lemma run_completed:
  assumes "exitCode (run w opts) = None"
  shows "\<exists>tp tc jp jc.
           readResult w (inputDir opts @ ''/parameters.json'') = Some tp
           \<and> parseJSON w (stripBOM tp) = Some jp \<and> validate schemas_parameters jp
           \<and> readResult w (inputDir opts @ ''/contents.json'') = Some tc
           \<and> parseJSON w (stripBOM tc) = Some jc \<and> validate schemas_contents jc
           \<and> writes (run w opts)
               = pageFiles opts (contentsOf jc @ [extra])
                 @ [outputDir opts @ ''ownership.html''] @ tempFiles opts @ finalWrites w opts
           \<and> sortedPages (run w opts) = sortPages (contentsOf jc @ [extra])
           \<and> tocVar (run w opts)
               = webToc w opts (parametersOf jp) (sortPages (contentsOf jc @ [extra]))"
proof -
  from run_loadMeta [OF assms] obtain s where s: "run w opts = loadMeta w opts s" "writes s = []"
    by blast
  with assms have "exitCode (loadMeta w opts s) = None"
    by simp
  from loadMeta_frame [OF this] s show ?thesis
    by simp
qed

text \<open>
  Claim C1, as amended. A run that completes calls \<open>fs.writeFile\<close>, in this order: once
  for every page of the contents as \<open>loadMeta\<close> extends them, that is for every declared
  page and for the release notes of the section \<open>Extra\<close>, with the path made of the
  output root, the source identifier up to its last dot and \<open>.html\<close>; then for
  \<open>ownership.html\<close>; with PDF output for the cover, header and footer under \<open>temp/\<close>;
  and with the redirect for \<open>index.html\<close> above the output root (after the renderer
  has closed, when there is one). It writes no other file. Two pages whose source
  identifiers agree up to the last dot have the same path.
\<close>

theorem completed_run_writes:
  assumes "exitCode (run w opts) = None"
  shows "\<exists>raw jc.
           readResult w (inputDir opts @ ''/contents.json'') = Some raw
           \<and> parseJSON w (stripBOM raw) = Some jc
           \<and> writes (run w opts)
               = map (outputPath opts) (concat (map pages (contentsOf jc @ [extra])))
                 @ [outputDir opts @ ''ownership.html'']
                 @ (if pdf opts
                    then [outputDir opts @ ''temp/pdfCover.html'',
                          outputDir opts @ ''temp/pdfHeader.html'',
                          outputDir opts @ ''temp/pdfFooter.html'']
                    else [])
                 @ (if redirect opts \<and> (\<not> pdf opts \<or> closeCode w \<noteq> None)
                    then [outputDir opts @ ''../index.html''] else [])"
proof -
  from run_completed [OF assms] obtain tc jc where
    "readResult w (inputDir opts @ ''/contents.json'') = Some tc"
    "parseJSON w (stripBOM tc) = Some jc"
    "writes (run w opts)
       = pageFiles opts (contentsOf jc @ [extra])
         @ [outputDir opts @ ''ownership.html''] @ tempFiles opts @ finalWrites w opts"
    by blast
  then show ?thesis
    by (auto simp: pageFiles_def tempFiles_def finalWrites_def redirectFile_def)
qed


lemma example_run_completes: "exitCode (run exampleWorld exampleOptions) = None"
  by code_simp

theorem completed_run_writes_witness:
  "exitCode (run exampleWorld exampleOptions) = None
   \<and> (\<exists>raw jc.
         readResult exampleWorld (inputDir exampleOptions @ ''/contents.json'') = Some raw
         \<and> parseJSON exampleWorld (stripBOM raw) = Some jc
         \<and> writes (run exampleWorld exampleOptions)
             = map (outputPath exampleOptions) (concat (map pages (contentsOf jc @ [extra])))
               @ [outputDir exampleOptions @ ''ownership.html'']
               @ (if pdf exampleOptions
                  then [outputDir exampleOptions @ ''temp/pdfCover.html'',
                        outputDir exampleOptions @ ''temp/pdfHeader.html'',
                        outputDir exampleOptions @ ''temp/pdfFooter.html'']
                  else [])
               @ (if redirect exampleOptions \<and> (\<not> pdf exampleOptions \<or> closeCode exampleWorld \<noteq> None)
                  then [outputDir exampleOptions @ ''../index.html''] else []))"
  using completed_run_writes [OF example_run_completes] example_run_completes
  by blast

lemma example_run_writes:
  "writes (run exampleWorld exampleOptions)
   = [''out/intro.html'', ''out/release-notes.html'', ''out/ownership.html'']"
proof -
  from run_completed [OF example_run_completes] obtain tc jc where
    r: "readResult exampleWorld (inputDir exampleOptions @ ''/contents.json'') = Some tc"
    and p: "parseJSON exampleWorld (stripBOM tc) = Some jc"
    and w: "writes (run exampleWorld exampleOptions)
       = pageFiles exampleOptions (contentsOf jc @ [extra])
         @ [outputDir exampleOptions @ ''ownership.html''] @ tempFiles exampleOptions
         @ finalWrites exampleWorld exampleOptions"
    by blast
  from r have "tc = ''[contents]''"
    by (simp add: exampleWorld_def worldWith_def exampleReads_def exampleOptions_def optionsWith_def)
  with p have jc: "jc = exampleContents"
    by (simp add: exampleWorld_def worldWith_def parseWith_def stripBOM_def BOM_def)
  have "pageFiles exampleOptions (contentsOf exampleContents @ [extra])
        = [''out/intro.html'', ''out/release-notes.html'']"
    by code_simp
  with w jc show ?thesis
    by (simp add: exampleOptions_def optionsWith_def tempFiles_def finalWrites_def redirectFile_def)
qed

text \<open>
  The claim as stated fails on the example: the completed run writes
  \<open>release-notes.html\<close> besides the file of the one declared page and \<open>ownership.html\<close>.
  And two declared pages \<open>intro.md\<close> and \<open>intro.txt\<close> are written to one file.
\<close>

theorem release_notes_file_counterexample:
  "exitCode (run exampleWorld exampleOptions) = None
   \<and> writes (run exampleWorld exampleOptions)
       = [''out/intro.html'', ''out/release-notes.html'', ''out/ownership.html'']
   \<and> spec_outputFiles exampleOptions exampleContents = [''out/intro.html'', ''out/ownership.html'']
   \<and> length (writes (run exampleWorld exampleOptions))
       \<noteq> length (spec_outputFiles exampleOptions exampleContents)
   \<and> map (outputPath exampleOptions)
        [\<lparr>title = ''Intro'', source = ''intro.md'', html = False\<rparr>,
         \<lparr>title = ''Intro'', source = ''intro.txt'', html = False\<rparr>]
      = [''out/intro.html'', ''out/intro.html'']"
proof -
  have d: "map (outputPath exampleOptions)
        [\<lparr>title = ''Intro'', source = ''intro.md'', html = False\<rparr>,
         \<lparr>title = ''Intro'', source = ''intro.txt'', html = False\<rparr>]
      = [''out/intro.html'', ''out/intro.html'']"
    by code_simp
  have c: "spec_outputFiles exampleOptions exampleContents = [''out/intro.html'', ''out/ownership.html'']"
    by code_simp
  have "length (writes (run exampleWorld exampleOptions))
       \<noteq> length (spec_outputFiles exampleOptions exampleContents)"
    unfolding example_run_writes c by simp
  with example_run_completes example_run_writes c d show ?thesis
    by (simp only: simp_thms)
qed

section \<open>The section Extra\<close>









section \<open>Invalid parameters\<close>

lemma isOutput_simps [simp]:
  "outputEvents (emit (Print msg) s) = outputEvents s"
  "outputEvents (emit PrintError s) = outputEvents s"
  "outputEvents (emit (RemakeDir path) s) = outputEvents s"
  "outputEvents (mainProcess_exit n s) = outputEvents s"
  "outputEvents (printError opts s) = outputEvents s"
  "outputEvents (catchFatal msg opts s) = outputEvents s"
  by (simp_all add: outputEvents_def isOutput_def emit_def mainProcess_exit_def printError_def
      catchFatal_def)

lemma readFile_outputEvents:
  "readFile w path s = (r, s') \<Longrightarrow> outputEvents s' = outputEvents s"
  by (auto simp: readFile_def split: option.splits)

lemma readFiles_outputEvents:
  "readFiles w paths s = (rs, s') \<Longrightarrow> outputEvents s' = outputEvents s"
proof (induction paths arbitrary: s rs s')
  case Nil
  then show ?case by simp
next
  case (Cons path paths)
  obtain r s1 where a: "readFile w path s = (r, s1)"
    by (cases "readFile w path s")
  obtain rs1 s2 where b: "readFiles w paths s1 = (rs1, s2)"
    by (cases "readFiles w paths s1")
  from Cons.prems a b have "s' = s2"
    by simp
  with readFile_outputEvents [OF a] Cons.IH [OF b] show ?case
    by simp
qed

lemma loadKey_invalid:
  assumes "parseJSON w text = None \<or> (\<exists>j. parseJSON w text = Some j \<and> \<not> validate (schemas key) j)"
  shows "\<exists>s'. loadKey w opts key text s = (None, s') \<and> exitCode s' = Some 1
               \<and> outputEvents s' = outputEvents s"
  using assms by (auto simp: loadKey_def validateJSON_def Let_def)

lemma loadMeta_invalid_parameters:
  assumes "readResult w (inputDir opts @ ''/parameters.json'') = Some raw"
    and "parseJSON w (stripBOM raw) = None
         \<or> (\<exists>j. parseJSON w (stripBOM raw) = Some j \<and> \<not> validate schemas_parameters j)"
  shows "exitCode (loadMeta w opts s) = Some 1 \<and> outputEvents (loadMeta w opts s) = outputEvents s"
proof -
  let ?s1 = "emit (Print ''Loading required JSON metadata files'') s"
  from assms(1) have a: "readFile w (inputDir opts @ ''/parameters.json'') ?s1 = (Some (stripBOM raw), ?s1)"
    by (simp add: readFile_def)
  obtain rc s3 where b: "readFile w (inputDir opts @ ''/contents.json'') ?s1 = (rc, s3)"
    by (cases "readFile w (inputDir opts @ ''/contents.json'') ?s1")
  from readFile_outputEvents [OF b] have o3: "outputEvents s3 = outputEvents s"
    by simp
  show ?thesis
  proof (cases rc)
    case None
    with a b o3 show ?thesis
      by (simp add: loadMeta_def Let_def)
  next
    case (Some tc)
    from assms(2) have "parseJSON w (stripBOM raw) = None
         \<or> (\<exists>j. parseJSON w (stripBOM raw) = Some j \<and> \<not> validate (schemas ''parameters'') j)"
      by (simp add: schemas_def)
    from loadKey_invalid [OF this, of opts s3] obtain s4 where
      "loadKey w opts ''parameters'' (stripBOM raw) s3 = (None, s4)" "exitCode s4 = Some 1"
      "outputEvents s4 = outputEvents s3"
      by blast
    with a b Some o3 show ?thesis
      by (simp add: loadMeta_def Let_def)
  qed
qed

text \<open>
  Claim C5. When \<open>parameters.json\<close> can be read and is malformed JSON or fails its
  schema, the run ends with \<open>mainProcess.exit(1)\<close>, and until then it has written no
  file, made no directory under the output root, copied nothing and not started the
  renderer.
\<close>

theorem invalid_parameters_halt:
  assumes "readResult w (inputDir opts @ ''/parameters.json'') = Some raw"
    and "parseJSON w (stripBOM raw) = None
         \<or> (\<exists>j. parseJSON w (stripBOM raw) = Some j \<and> \<not> validate schemas_parameters j)"
  shows "exitCode (run w opts) = Some 1 \<and> outputEvents (run w opts) = []"
proof -
  define s0 where
    "s0 = remakeDirSync w opts (outputDir opts) (emit (Print (''DocGen version '' @ version)) initial)"
  define s1 where "s1 = emit (Print ''Loading templates'') s0"
  have "outputEvents initial = []"
    by (simp add: outputEvents_def initial_def)
  then have o0: "outputEvents s0 = []"
    by (simp add: s0_def remakeDirSync_def Let_def)
  have e0: "exitCode s0 = None \<or> exitCode s0 = Some 1"
    by (simp add: s0_def remakeDirSync_def Let_def initial_def)
  have r0: "run w opts = andThen s0 (loadTemplates w opts)"
    by (simp add: run_def s0_def)
  obtain rs s2 where rf: "readFiles w (templateFiles w) s1 = (rs, s2)"
    by (cases "readFiles w (templateFiles w) s1")
  from readFiles_outputEvents [OF rf] o0 have o2: "outputEvents s2 = []"
    by (simp add: s1_def)
  show ?thesis
  proof (cases "exitCode s0 = None")
    case False
    with e0 o0 r0 show ?thesis
      by (auto simp: andThen_def)
  next
    case True
    with r0 have r: "run w opts = loadTemplates w opts s0"
      by (simp add: andThen_def)
    show ?thesis
    proof (cases "those rs")
      case None
      with r rf o2 show ?thesis
        by (simp add: loadTemplates_def Let_def s1_def)
    next
      case (Some files)
      with r rf have "run w opts = loadMeta w opts s2"
        by (simp add: loadTemplates_def Let_def s1_def)
      with loadMeta_invalid_parameters [OF assms, of s2] o2 show ?thesis
        by simp
    qed
  qed
qed

theorem invalid_parameters_halt_witness:
  "exitCode (run invalidWorld exampleOptions) = Some 1
   \<and> outputEvents (run invalidWorld exampleOptions) = []
   \<and> exitCode (run malformedWorld exampleOptions) = Some 1
   \<and> outputEvents (run malformedWorld exampleOptions) = []"
proof -
  have a: "readResult invalidWorld (inputDir exampleOptions @ ''/parameters.json'') = Some ''{parameters}''"
    by (simp add: invalidWorld_def worldWith_def exampleReads_def exampleOptions_def optionsWith_def)
  have b: "parseJSON invalidWorld (stripBOM ''{parameters}'') = Some invalidParameters"
    by (simp add: invalidWorld_def worldWith_def parseWith_def stripBOM_def BOM_def)
  have c: "\<not> validate schemas_parameters invalidParameters"
    by (simp add: validate_def schemas_parameters_def invalidParameters_def)
  from b c have d: "parseJSON invalidWorld (stripBOM ''{parameters}'') = None
         \<or> (\<exists>j. parseJSON invalidWorld (stripBOM ''{parameters}'') = Some j
                \<and> \<not> validate schemas_parameters j)"
    by simp
  have a': "readResult malformedWorld (inputDir exampleOptions @ ''/parameters.json'') = Some ''{parameters}''"
    by (simp add: malformedWorld_def worldWith_def exampleReads_def exampleOptions_def optionsWith_def)
  have d': "parseJSON malformedWorld (stripBOM ''{parameters}'') = None
         \<or> (\<exists>j. parseJSON malformedWorld (stripBOM ''{parameters}'') = Some j
                \<and> \<not> validate schemas_parameters j)"
    by (simp add: malformedWorld_def worldWith_def)
  from invalid_parameters_halt [OF a d] invalid_parameters_halt [OF a' d'] show ?thesis
    by simp
qed

section \<open>Copy failures\<close>

text \<open>
  Claim C3 is not what the code does. On the example input without a \<open>files\<close> directory
  the copy fails. Without verbose diagnostics \<open>copyDirSync\<close> reports the error and
  returns, and the run completes with status 0; with verbose diagnostics the same failure
  ends the run with status 1.
\<close>

theorem copy_failure_fatal_only_when_verbose:
  "trace (copyDirSync copyFailWorld exampleOptions ''in//files'' ''out/files'' initial)
     = [CopyDir ''in//files'' ''out/files'',
        Print ''Error copying directory: in//files to out/files'']
   \<and> exitCode (copyDirSync copyFailWorld exampleOptions ''in//files'' ''out/files'' initial) = None
   \<and> exitCode (copyDirSync copyFailWorld verboseOptions ''in//files'' ''out/files'' initial) = Some 1
   \<and> exitStatus (run copyFailWorld exampleOptions) = 0
   \<and> exitStatus (run copyFailWorld verboseOptions) = 1"
  by code_simp

section \<open>The version of the renderer\<close>

lemma spawns_simps [simp]:
  "spawns (emit (Print msg) s) = spawns s"
  "spawns (emit PrintError s) = spawns s"
  "spawns (emit (Exec cmd) s) = spawns s"
  "spawns (emit (WriteFile path) s) = spawns s"
  "spawns (emit (RemoveDir path) s) = spawns s"
  "spawns (mainProcess_exit n s) = spawns s"
  "spawns (printError opts s) = spawns s"
  "spawns (emit (Spawn cmd args) s) = spawns s @ [Spawn cmd args]"
  by (simp_all add: spawns_def emit_def mainProcess_exit_def printError_def)

lemma sortedPages_frame [simp]:
  "sortedPages (emit e s) = sortedPages s"
  "sortedPages (printError opts s) = sortedPages s"
  by (simp_all add: emit_def printError_def)

lemma versionWarning_simps [simp]:
  "exitCode (versionWarning actual s) = exitCode s"
  "spawns (versionWarning actual s) = spawns s"
  "sortedPages (versionWarning actual s) = sortedPages s"
  by (simp_all add: versionWarning_def)

lemma cleanUp_exit:
  "exitCode s = None \<Longrightarrow> \<not> verbose opts \<or> removeOk w (outputDir opts @ ''temp'') \<Longrightarrow>
     exitCode (cleanUp w opts s) = None"
  by (auto simp: cleanUp_def andThen_def Let_def removeDirSync_def)

lemma cleanUp_spawns: "spawns (cleanUp w opts s) = spawns s"
  by (auto simp: cleanUp_def andThen_def Let_def removeDirSync_def createRedirect_def)

lemma generatePdf_exit:
  "exitCode s = None \<Longrightarrow> \<not> verbose opts \<or> removeOk w (outputDir opts @ ''temp'') \<Longrightarrow>
     exitCode (generatePdf w opts m s) = None"
  by (auto simp: generatePdf_def Let_def cleanUp_exit split: option.splits)

lemma generatePdf_spawns:
  "spawns (generatePdf w opts m s)
   = spawns s @ [Spawn (wkhtmltopdfPath opts)
                   (getPdfArguments w opts (meta_parameters m) (sortedPages s))]"
  by (auto simp: generatePdf_def Let_def cleanUp_spawns split: option.splits)

text \<open>
  Claim C6. With PDF output requested: when the version command of the renderer cannot
  be executed, \<open>checkPdfVersion\<close> ends the run with status 1 and the renderer is not
  started. When the command runs and reports a version other than the pinned one,
  \<open>checkPdfVersion\<close> prints the three lines of the warning and hands over to
  \<open>generatePdf\<close>, which starts the renderer once with the arguments of
  \<open>getPdfArguments\<close>; nothing exits, so the run ends with status 0 (removing \<open>temp\<close>
  afterwards is taken not to fail under verbose diagnostics, the one other exit on this
  path).
\<close>

theorem pdf_version_check:
  assumes "pdf opts" and "exitCode s = None"
  shows "(execVersion w = None \<longrightarrow>
            exitCode (checkPdfVersion w opts m s) = Some 1
            \<and> spawns (checkPdfVersion w opts m s) = spawns s)
       \<and> (\<forall>out. execVersion w = Some out \<and> trim out \<noteq> wkhtmltopdfVersion \<longrightarrow>
            checkPdfVersion w opts m s
              = generatePdf w opts m
                  (versionWarning (trim out) (emit (Exec (wkhtmltopdfPath opts @ '' -V'')) s))
            \<and> spawns (checkPdfVersion w opts m s)
                = spawns s @ [Spawn (wkhtmltopdfPath opts)
                                (getPdfArguments w opts (meta_parameters m) (sortedPages s))]
            \<and> (\<not> verbose opts \<or> removeOk w (outputDir opts @ ''temp'')
                 \<longrightarrow> exitCode (checkPdfVersion w opts m s) = None))"
proof (intro conjI impI allI)
  assume "execVersion w = None"
  with assms show "exitCode (checkPdfVersion w opts m s) = Some 1"
    and "spawns (checkPdfVersion w opts m s) = spawns s"
    by (simp_all add: checkPdfVersion_def)
next
  fix out
  assume a: "execVersion w = Some out \<and> trim out \<noteq> wkhtmltopdfVersion"
  let ?s = "versionWarning (trim out) (emit (Exec (wkhtmltopdfPath opts @ '' -V'')) s)"
  from a assms(1) show eq: "checkPdfVersion w opts m s = generatePdf w opts m ?s"
    by (simp add: checkPdfVersion_def Let_def versionWarning_def)
  show "spawns (checkPdfVersion w opts m s)
          = spawns s @ [Spawn (wkhtmltopdfPath opts)
                          (getPdfArguments w opts (meta_parameters m) (sortedPages s))]"
    by (simp add: eq generatePdf_spawns)
  assume "\<not> verbose opts \<or> removeOk w (outputDir opts @ ''temp'')"
  with assms(2) show "exitCode (checkPdfVersion w opts m s) = None"
    by (simp add: eq generatePdf_exit)
qed

theorem pdf_version_check_witness:
  "exitCode (checkPdfVersion noRendererWorld pdfExampleOptions exampleMeta initial) = Some 1
   \<and> spawns (checkPdfVersion noRendererWorld pdfExampleOptions exampleMeta initial) = spawns initial
   \<and> spawns (checkPdfVersion exampleWorld pdfExampleOptions exampleMeta initial)
       = spawns initial
         @ [Spawn (wkhtmltopdfPath pdfExampleOptions)
              (getPdfArguments exampleWorld pdfExampleOptions (meta_parameters exampleMeta)
                 (sortedPages initial))]
   \<and> exitCode (checkPdfVersion exampleWorld pdfExampleOptions exampleMeta initial) = None"
proof -
  have p: "pdf pdfExampleOptions"
    by (simp add: pdfExampleOptions_def optionsWith_def)
  have i: "exitCode initial = None"
    by (simp add: initial_def)
  have n: "execVersion noRendererWorld = None"
    by (simp add: noRendererWorld_def worldWith_def)
  have v: "execVersion exampleWorld = Some ''wkhtmltopdf 0.12.5''"
    by (simp add: exampleWorld_def worldWith_def)
  have t: "(trim ''wkhtmltopdf 0.12.5'' \<noteq> wkhtmltopdfVersion) = True"
    by code_simp
  have q: "\<not> verbose pdfExampleOptions \<or> removeOk exampleWorld (outputDir pdfExampleOptions @ ''temp'')"
    by (simp add: pdfExampleOptions_def optionsWith_def)
  from pdf_version_check [OF p i, of noRendererWorld exampleMeta] n
  have "exitCode (checkPdfVersion noRendererWorld pdfExampleOptions exampleMeta initial) = Some 1
      \<and> spawns (checkPdfVersion noRendererWorld pdfExampleOptions exampleMeta initial) = spawns initial"
    by blast
  moreover from pdf_version_check [OF p i, of exampleWorld exampleMeta] v t q
  have "spawns (checkPdfVersion exampleWorld pdfExampleOptions exampleMeta initial)
       = spawns initial
         @ [Spawn (wkhtmltopdfPath pdfExampleOptions)
              (getPdfArguments exampleWorld pdfExampleOptions (meta_parameters exampleMeta)
                 (sortedPages initial))]
      \<and> exitCode (checkPdfVersion exampleWorld pdfExampleOptions exampleMeta initial) = None"
    by blast
  ultimately show ?thesis
    by blast
qed

section \<open>Raw HTML pages\<close>

lemma storePages_later:
  assumes "storePages w kts pgs = Some pgs'" and "k \<notin> set (map (keySource \<circ> fst) kts)"
  shows "pgs' k = pgs k"
  using assms
proof (induction kts arbitrary: pgs)
  case Nil
  then show ?case by simp
next
  case (Cons kt kts)
  obtain key body where kt: "kt = (key, body)" by (cases kt)
  with Cons.prems obtain v where "storePages w kts (assignPage pgs (keySource key) v) = Some pgs'"
    by (auto split: if_splits option.splits)
  from Cons.IH [OF this] Cons.prems(2) kt show ?case
    by (simp add: assignPage_def)
qed

lemma storePages_html:
  assumes "storePages w (before @ (key, body) # after) pgs = Some pgs'"
    and "keyHtml key" and "keySource key \<notin> set (map (keySource \<circ> fst) after)"
    and "keySource key \<noteq> ''__proto__''"
  shows "pgs' (keySource key) = Some body"
  using assms
proof (induction before arbitrary: pgs)
  case Nil
  then have "storePages w after (assignPage pgs (keySource key) body) = Some pgs'"
    by simp
  from storePages_later [OF this Nil.prems(3)] Nil.prems(4) show ?case
    by (simp add: assignPage_def)
next
  case (Cons kt before)
  obtain k t where kt: "kt = (k, t)" by (cases kt)
  with Cons.prems(1) obtain v where
    "storePages w (before @ (key, body) # after) (assignPage pgs (keySource k) v) = Some pgs'"
    by (auto split: if_splits option.splits)
  from Cons.IH [OF this Cons.prems(2,3,4)] show ?case .
qed

lemma those_Some: "those xs = Some ys \<Longrightarrow> xs = map Some ys"
  by (induction xs arbitrary: ys) (auto split: option.splits)

lemma zip_keys_subset:
  "set (map (keySource \<circ> fst) (zip ks ts)) \<subseteq> set (map keySource ks)"
  by (auto dest: set_zip_leftD)

text \<open>
  Claim C7, as amended. For a page with \<open>html\<close> true whose source identifier is not the
  source identifier of a later page of the contents (the release notes of the section
  \<open>Extra\<close> come last), is not \<open>undefined\<close> (under which the text read for the key
  \<open>ownership\<close> is stored) and is not \<open>__proto__\<close> (under which an object stores no
  string), the content that \<open>loadMarkdown\<close> stores is the text of the source file
  without a leading byte-order-mark: the Markdown renderer has no part in it.
\<close>

theorem html_page_loaded_verbatim:
  assumes pages: "concat (map pages contents) = before @ p # after"
    and html: "html p"
    and later: "source p \<notin> set (map source after)"
    and undef: "source p \<noteq> ''undefined''"
    and proto: "source p \<noteq> ''__proto__''"
    and reads: "readFiles w (loadFiles opts contents) s = (rs, s')"
    and all_read: "those rs = Some texts"
    and stored: "storePages w (zip (loadKeys contents) texts) pgs = Some pgs'"
  shows "\<exists>raw. readResult w (inputDir opts @ ''/'' @ source p) = Some raw
               \<and> pgs' (source p) = Some (stripBOM raw)"
proof -
  let ?g = "\<lambda>path. map_option stripBOM (readResult w path)"
  let ?P = "\<lambda>p. inputDir opts @ ''/'' @ source p"
  let ?rest = "map ?P after @ [inputDir opts @ ''/release-notes.txt'']"
  from readFiles_frame [OF reads, of s'] those_Some [OF all_read]
  have "map Some texts = map ?g (loadFiles opts contents)"
    by simp
  also have "loadFiles opts contents = map ?P before @ ?P p # ?rest"
    by (simp add: loadFiles_def pages)
  finally have "map Some texts = map ?g (map ?P before) @ ?g (?P p) # map ?g ?rest"
    by simp
  then obtain tb tr where t1: "texts = tb @ tr" and t2: "map Some tb = map ?g (map ?P before)"
    and t3: "map Some tr = ?g (?P p) # map ?g ?rest"
    by (auto simp: map_eq_append_conv)
  from t3 obtain body ta where t4: "tr = body # ta" and t5: "Some body = ?g (?P p)"
    by (auto simp: map_eq_Cons_conv)
  from t5 obtain raw where raw: "readResult w (?P p) = Some raw" "body = stripBOM raw"
    by (cases "readResult w (?P p)") auto
  from t2 have len: "length (map Some before :: page option list) = length tb"
    using map_eq_imp_length_eq [OF t2] by simp
  let ?ks = "map Some after @ [None]"
  have "loadKeys contents = map Some before @ Some p # ?ks"
    by (simp add: loadKeys_def pages)
  with t1 t4 len have z: "zip (loadKeys contents) texts
      = zip (map Some before) tb @ (Some p, body) # zip ?ks ta"
    by simp
  have "set (map keySource ?ks) = set (map source after) \<union> {''undefined''}"
    by (auto simp: keySource_def)
  with later undef zip_keys_subset [of ?ks ta]
  have notin: "keySource (Some p) \<notin> set (map (keySource \<circ> fst) (zip ?ks ta))"
    by (auto simp: keySource_def)
  from html have kh: "keyHtml (Some p)"
    by (simp add: keyHtml_def)
  from proto have np: "keySource (Some p) \<noteq> ''__proto__''"
    by (simp add: keySource_def)
  from stored z have "storePages w (zip (map Some before) tb @ (Some p, body) # zip ?ks ta) pgs = Some pgs'"
    by simp
  from storePages_html [OF this kh notin np] have "pgs' (source p) = Some body"
    by (simp add: keySource_def)
  with raw show ?thesis by simp
qed

theorem html_page_loaded_verbatim_witness:
  "\<exists>raw. readResult exampleWorld (inputDir exampleOptions @ ''/'' @ source rawPage) = Some raw
         \<and> (Map.empty(''raw.html'' \<mapsto> ''<b>raw</b>'', ''release-notes.txt'' \<mapsto> ''<p># Intro</p>'',
                        ''undefined'' \<mapsto> ''<p># Intro</p>'')) (source rawPage)
             = Some (stripBOM raw)"
proof -
  let ?contents = "contentsOf rawContents @ [extra]"
  let ?notes = "\<lparr>title = ''Release notes'', source = ''release-notes.txt'', html = False\<rparr>"
  have c1: "concat (map pages (contentsOf rawContents)) = [rawPage]"
    by (simp add: contentsOf_def rawContents_def elements_def sectionOf_def pageOf_def field_def
        stringOf_def valueOf_def rawPage_def)
  have c2: "pages extra = [?notes]"
    by (simp add: extra_def)
  have cs: "concat (map pages ?contents) = [] @ rawPage # [?notes]"
    by (simp add: c1 c2)
  have h: "html rawPage"
    by (simp add: rawPage_def)
  have l: "source rawPage \<notin> set (map source [?notes])"
    by (simp add: rawPage_def)
  have u: "source rawPage \<noteq> ''undefined''"
    by (simp add: rawPage_def)
  have np: "source rawPage \<noteq> ''__proto__''"
    by (simp add: rawPage_def)
  have files: "loadFiles exampleOptions ?contents
               = [''in//raw.html'', ''in//release-notes.txt'', ''in//release-notes.txt'']"
    by code_simp
  have rd: "readFiles exampleWorld (loadFiles exampleOptions ?contents) initial
            = ([Some ''<b>raw</b>'', Some ''# Intro'', Some ''# Intro''], initial)"
    unfolding files
    by (simp add: readFile_def exampleWorld_def worldWith_def exampleReads_def stripBOM_def BOM_def)
  have th: "those [Some ''<b>raw</b>'', Some ''# Intro'', Some ''# Intro'']
            = Some [''<b>raw</b>'', ''# Intro'', ''# Intro'']"
    by simp
  have keys: "loadKeys ?contents = [Some rawPage, Some ?notes, None]"
    by (simp add: loadKeys_def c1 c2)
  have st: "storePages exampleWorld (zip (loadKeys ?contents) [''<b>raw</b>'', ''# Intro'', ''# Intro''])
              Map.empty
            = Some (Map.empty(''raw.html'' \<mapsto> ''<b>raw</b>'', ''release-notes.txt'' \<mapsto> ''<p># Intro</p>'',
                              ''undefined'' \<mapsto> ''<p># Intro</p>''))"
    unfolding keys
    by (simp add: keyHtml_def keySource_def rawPage_def exampleWorld_def worldWith_def
        assignPage_def)
  from html_page_loaded_verbatim [OF cs h l u np rd th st] show ?thesis .
qed

text \<open>
  The claim as stated fails when the contents declare \<open>release-notes.txt\<close> as a raw HTML
  page: the page of the section \<open>Extra\<close> has the same source identifier and comes later,
  so the content stored for the declared page is the output of the Markdown renderer and
  not the text of the file.
\<close>

theorem html_page_rendered_counterexample:
  "concat (map pages (contentsOf notesContents)) = [notesPage]
   \<and> html notesPage
   \<and> readResult notesWorld (inputDir exampleOptions @ ''/'' @ source notesPage) = Some ''# Intro''
   \<and> stripBOM ''# Intro'' = ''# Intro''
   \<and> pagesVar (run notesWorld exampleOptions) (source notesPage) = Some ''<p># Intro</p>''"
  by code_simp

section \<open>Parameters without a backlink\<close>

lemma insertParameters_no_backlink:
  "backlink params = None \<Longrightarrow> insertParameters w opts params contents = Inl TypeError"
  by (simp add: insertParameters_def Let_def split: list.splits)

text \<open>
  Claim C10. There is a \<open>parameters.json\<close> that passes the schema and makes
  \<open>insertParameters\<close> throw: the example parameters without \<open>backlink\<close>, which the
  schema does not require. \<open>insertParameters\<close> then throws a \<open>TypeError\<close> whatever the
  contents, and the run ends in the handler of \<open>loadMarkdown\<close> with the message
  \<open>Error loading source files\<close> and status 1, having written nothing.
\<close>

theorem schema_valid_parameters_crash:
  "\<exists>j. validate (schemas ''parameters'') j
       \<and> backlink (parametersOf j) = None
       \<and> insertParameters w opts (parametersOf j) contents = Inl TypeError
       \<and> parseJSON noBacklinkWorld ''{parameters}'' = Some j
       \<and> exitCode (run noBacklinkWorld exampleOptions) = Some 1
       \<and> writes (run noBacklinkWorld exampleOptions) = []
       \<and> last (butlast (trace (run noBacklinkWorld exampleOptions)))
           = Print ''Error loading source files''"
proof -
  have v: "validate (schemas ''parameters'') noBacklinkParameters"
    by (simp add: schemas_def validate_def schemas_parameters_def noBacklinkParameters_def
        linkSchema_def exampleLink_def hasType_def)
  have b: "backlink (parametersOf noBacklinkParameters) = None"
    by (simp add: parametersOf_def noBacklinkParameters_def field_def)
  have p: "parseJSON noBacklinkWorld ''{parameters}'' = Some noBacklinkParameters"
    by (simp add: noBacklinkWorld_def worldWith_def parseWith_def)
  have e: "exitCode (run noBacklinkWorld exampleOptions) = Some 1"
    by code_simp
  have w: "writes (run noBacklinkWorld exampleOptions) = []"
    by code_simp
  have l: "last (butlast (trace (run noBacklinkWorld exampleOptions)))
           = Print ''Error loading source files''"
    by code_simp
  from v b insertParameters_no_backlink [OF b] p e w l show ?thesis
    by blast
qed

end
